theory Spec2Isabelle
  imports Main "HOL-Library.Word"
begin

section \<open>Python values, exceptions and the environment\<close>

text \<open>
  The authentication code of the admin backend lives in \<open>app/auth.py\<close>, its callers in
  \<open>app/routers/admin.py\<close>, the configuration in \<open>app/settings.py\<close> and the administrator
  table in \<open>app/models.py\<close>. Python \<open>str\<close> and \<open>bytes\<close> values are modelled as \<open>string\<close>
  (the UTF-8 bytes of the text); tokens and cookie values are ASCII.

  The payload a serializer carries is a JSON value. \<open>truthy\<close> is Python's truth value
  of the decoded object, which the guards \<open>if not admin_data\<close> and
  \<open>if get_current_admin(request)\<close> test.
\<close>

datatype json =
  JNull
| JBool bool
| JInt int
| JStr string
| JArr "json list"
| JObj "(string \<times> json) list"

fun truthy :: "json \<Rightarrow> bool" where
  "truthy JNull = False"
| "truthy (JBool b) = b"
| "truthy (JInt i) = (i \<noteq> 0)"
| "truthy (JStr s) = (s \<noteq> [])"
| "truthy (JArr xs) = (xs \<noteq> [])"
| "truthy (JObj kvs) = (kvs \<noteq> [])"

text \<open>
  The exceptions that can leave the modelled functions. In itsdangerous,
  \<open>SignatureExpired\<close> is a subclass of \<open>BadTimeSignature\<close>, which is a subclass of
  \<open>BadSignature\<close>; \<open>BadPayload\<close> is not. \<open>HTTPException\<close> carries its status code and
  headers. \<open>PanicException\<close> is what the Rust part of bcrypt raises when it panics.
\<close>

datatype exn =
  BadSignature
| BadTimeSignature
| SignatureExpired
| BadPayload
| ValueError
| PanicException
| HTTPException nat "(string \<times> string) list"

fun isinstance_BadSignature :: "exn \<Rightarrow> bool" where
  "isinstance_BadSignature BadSignature = True"
| "isinstance_BadSignature BadTimeSignature = True"
| "isinstance_BadSignature SignatureExpired = True"
| "isinstance_BadSignature BadPayload = False"
| "isinstance_BadSignature ValueError = False"
| "isinstance_BadSignature PanicException = False"
| "isinstance_BadSignature (HTTPException s h) = False"

text \<open>
  The environment of \<open>auth.py\<close>: the setting \<open>ADMIN_SESSION_EXPIRE_MINUTES\<close> (an integer
  read from the process environment, 480 by default) and the primitives of the two
  third-party libraries whose code is outside the repository:
  \<^item> \<open>hmac_digest\<close>: the raw signature the serializer's signer computes for a message,
    HMAC-SHA1 under the key derived from \<open>SECRET_KEY\<close>;
  \<^item> \<open>dump_payload\<close>, \<open>load_payload\<close>: the URL-safe payload codec of
    \<open>URLSafeTimedSerializer\<close> (compact JSON, zlib when that is shorter, base64);
    \<open>load_payload\<close> gives \<open>None\<close> where the library raises \<open>BadPayload\<close>;
  \<^item> \<open>bcrypt_kdf\<close>: what \<open>bcrypt.hashpw\<close> does with a password and a salt string of
    at least three fields: the formatted hash, or the exception it raises.
\<close>

record env =
  ADMIN_SESSION_EXPIRE_MINUTES :: int
  hmac_digest :: "string \<Rightarrow> string"
  dump_payload :: "json \<Rightarrow> string"
  load_payload :: "string \<Rightarrow> json option"
  bcrypt_kdf :: "string \<Rightarrow> string \<Rightarrow> exn + string"

text \<open>The clock is \<open>int(time.time())\<close>, seconds since the epoch, packed by the signer as
  an unsigned 64-bit integer.\<close>

type_synonym clock = "64 word"

section \<open>itsdangerous: URL-safe base64\<close>

text \<open>
  \<open>base64_encode\<close> is \<open>base64.urlsafe_b64encode(string).rstrip(b"=")\<close>: three bytes
  become four characters of the URL-safe alphabet, a rest of one or two bytes becomes
  two or three characters, and the padding is stripped.
\<close>

definition b64chars :: string where
  "b64chars = ''ABCDEFGHIJKLMNOPQRSTUVWXYZabcdefghijklmnopqrstuvwxyz0123456789-_''"

fun base64_encode :: "string \<Rightarrow> string" where
  "base64_encode (a # b # c # rest) =
     [b64chars ! (of_char a div 4),
      b64chars ! ((of_char a mod 4) * 16 + of_char b div 16),
      b64chars ! ((of_char b mod 16) * 4 + of_char c div 64),
      b64chars ! (of_char c mod 64)] @ base64_encode rest"
| "base64_encode [a, b] =
     [b64chars ! (of_char a div 4),
      b64chars ! ((of_char a mod 4) * 16 + of_char b div 16),
      b64chars ! ((of_char b mod 16) * 4)]"
| "base64_encode [a] =
     [b64chars ! (of_char a div 4),
      b64chars ! ((of_char a mod 4) * 16)]"
| "base64_encode [] = []"

text \<open>
  \<open>base64_decode\<close> pads the input with \<open>=\<close> to a multiple of four characters and calls
  \<open>base64.urlsafe_b64decode\<close>, which maps \<open>-\<close> to \<open>+\<close> and \<open>_\<close> to \<open>/\<close> and decodes
  leniently (\<open>binascii.a2b_base64\<close> without strict mode): so both \<open>-\<close> and \<open>+\<close> stand
  for 62, both \<open>_\<close> and \<open>/\<close> for 63, a character outside the alphabet is skipped, a
  padding character ends the input once the current quadruple is complete, and the
  bits left over in the last character are dropped unchecked. \<open>a2b_loop\<close> is the loop
  of \<open>a2b_base64\<close> with its state: the position in the quadruple, the bits carried
  over, the count of padding characters seen, and the output. \<open>None\<close> is the
  \<open>binascii.Error\<close> for a truncated quadruple.
\<close>

definition b64val :: "char \<Rightarrow> nat option" where
  "b64val c =
     (let n = (of_char c :: nat) in
      if 65 \<le> n \<and> n \<le> 90 then Some (n - 65)
      else if 97 \<le> n \<and> n \<le> 122 then Some (n - 71)
      else if 48 \<le> n \<and> n \<le> 57 then Some (n + 4)
      else if c = CHR ''-'' \<or> c = CHR ''+'' then Some 62
      else if c = CHR ''_'' \<or> c = CHR ''/'' then Some 63
      else None)"

fun a2b_loop :: "nat \<Rightarrow> nat \<Rightarrow> nat \<Rightarrow> string \<Rightarrow> string \<Rightarrow> string option" where
  "a2b_loop quad_pos leftchar pads out [] = (if quad_pos \<noteq> 0 then None else Some out)"
| "a2b_loop quad_pos leftchar pads out (c # cs) =
     (if c = CHR ''='' then
        (if 2 \<le> quad_pos \<and> 4 \<le> quad_pos + (pads + 1) then Some out
         else a2b_loop quad_pos leftchar (if 2 \<le> quad_pos then pads + 1 else pads) out cs)
      else
        (case b64val c of
           None \<Rightarrow> a2b_loop quad_pos leftchar pads out cs
         | Some v \<Rightarrow>
             if quad_pos = 0 then a2b_loop 1 v 0 out cs
             else if quad_pos = 1 then
               a2b_loop 2 (v mod 16) 0 (out @ [char_of (leftchar * 4 + v div 16)]) cs
             else if quad_pos = 2 then
               a2b_loop 3 (v mod 4) 0 (out @ [char_of (leftchar * 16 + v div 4)]) cs
             else a2b_loop 0 0 0 (out @ [char_of (leftchar * 64 + v)]) cs))"

definition base64_decode :: "string \<Rightarrow> string option" where
  "base64_decode s =
     a2b_loop 0 0 0 [] (s @ replicate ((4 - length s mod 4) mod 4) (CHR ''=''))"

text \<open>
  \<open>int_to_bytes\<close> is \<open>struct.pack(">Q", num).lstrip(b"\x00")\<close>. \<open>bytes_to_int\<close> is
  \<open>struct.unpack(">Q", bytestr.rjust(8, b"\x00"))[0]\<close>: the big-endian value
  (\<open>be_value\<close>) of at most eight bytes, and \<open>None\<close> (the \<open>struct.error\<close>) for more
  than eight.
\<close>

definition pack_Q :: "clock \<Rightarrow> string" where
  "pack_Q num =
     (let n = unat num
      in [char_of (n div 2 ^ 56), char_of (n div 2 ^ 48), char_of (n div 2 ^ 40),
          char_of (n div 2 ^ 32), char_of (n div 2 ^ 24), char_of (n div 2 ^ 16),
          char_of (n div 2 ^ 8), char_of n])"

definition int_to_bytes :: "clock \<Rightarrow> string" where
  "int_to_bytes num = dropWhile (\<lambda>c. c = char_of (0::nat)) (pack_Q num)"

definition be_value :: "string \<Rightarrow> nat" where
  "be_value bytestr = foldl (\<lambda>acc c. acc * 256 + of_char c) 0 bytestr"

definition bytes_to_int :: "string \<Rightarrow> nat option" where
  "bytes_to_int bytestr = (if length bytestr \<le> 8 then Some (be_value bytestr) else None)"

section \<open>itsdangerous: the timed signer and serializer\<close>

text \<open>\<open>rsplit_sep s\<close> is \<open>s.rsplit(b".", 1)\<close> where the separator occurs in \<open>s\<close>, and
  \<open>None\<close> where it does not.\<close>

fun rsplit_sep :: "string \<Rightarrow> (string \<times> string) option" where
  "rsplit_sep [] = None"
| "rsplit_sep (c # cs) =
     (case rsplit_sep cs of
        Some (a, b) \<Rightarrow> Some (c # a, b)
      | None \<Rightarrow> if c = CHR ''.'' then Some ([], cs) else None)"

text \<open>\<open>Signer.verify_signature\<close>: the signature is base64-decoded (a decoding error
  counts as a mismatch) and compared with the digest of the value.\<close>

definition verify_signature :: "env \<Rightarrow> string \<Rightarrow> string \<Rightarrow> bool" where
  "verify_signature E v sig =
     (case base64_decode sig of
        None \<Rightarrow> False
      | Some d \<Rightarrow> d = hmac_digest E v)"

text \<open>\<open>Signer.unsign\<close>: \<open>Inl p\<close> is \<open>BadSignature\<close> raised with payload \<open>p\<close>.\<close>

definition signer_unsign :: "env \<Rightarrow> string \<Rightarrow> string option + string" where
  "signer_unsign E signed_value =
     (case rsplit_sep signed_value of
        None \<Rightarrow> Inl None
      | Some (v, sig) \<Rightarrow> if verify_signature E v sig then Inr v else Inl (Some v))"

text \<open>
  \<open>TimestampSigner.unsign\<close> (itsdangerous 2.x) with \<open>max_age\<close> given: the signature
  is checked first; a signature error is re-raised, as \<open>BadTimeSignature\<close> when the
  value has a timestamp part; a timestamp that does not decode (bad base64, or more
  than eight bytes) is \<open>BadTimeSignature\<close> too; then the age \<open>now - timestamp\<close> is
  compared with \<open>max_age\<close>, and a negative age counts as expired too. The library also turns the
  timestamp into a \<open>datetime\<close> for its error messages and return value; that
  conversion succeeds for every timestamp before the year 10000 and is left out.
\<close>

definition timestamp_unsign :: "env \<Rightarrow> clock \<Rightarrow> string \<Rightarrow> int \<Rightarrow> exn + string" where
  "timestamp_unsign E now signed_value max_age =
     (let (sig_error, result) =
            (case signer_unsign E signed_value of
               Inr r \<Rightarrow> (False, r)
             | Inl None \<Rightarrow> (True, [])
             | Inl (Some p) \<Rightarrow> (True, p))
      in case rsplit_sep result of
           None \<Rightarrow> if sig_error then Inl BadSignature else Inl BadTimeSignature
         | Some (v, ts_bytes) \<Rightarrow>
             if sig_error then Inl BadTimeSignature
             else
               (case base64_decode ts_bytes of
                  None \<Rightarrow> Inl BadTimeSignature
                | Some b \<Rightarrow>
                    (case bytes_to_int b of
                       None \<Rightarrow> Inl BadTimeSignature
                     | Some ts_int \<Rightarrow>
                         (let age = int (unat now) - int ts_int in
                          if age > max_age then Inl SignatureExpired
                          else if age < 0 then Inl SignatureExpired
                          else Inr v))))"

text \<open>\<open>TimestampSigner.sign\<close> and \<open>TimedSerializer.dumps\<close>, \<open>TimedSerializer.loads\<close>
  with the serializer's single signer.\<close>

definition timestamp_sign :: "env \<Rightarrow> clock \<Rightarrow> string \<Rightarrow> string" where
  "timestamp_sign E now v =
     (let v' = v @ ''.'' @ base64_encode (int_to_bytes now)
      in v' @ ''.'' @ base64_encode (hmac_digest E v'))"

definition serializer_dumps :: "env \<Rightarrow> clock \<Rightarrow> json \<Rightarrow> string" where
  "serializer_dumps E now obj = timestamp_sign E now (dump_payload E obj)"

definition serializer_loads :: "env \<Rightarrow> clock \<Rightarrow> string \<Rightarrow> int \<Rightarrow> exn + json" where
  "serializer_loads E now s max_age =
     (case timestamp_unsign E now s max_age of
        Inl e \<Rightarrow> Inl e
      | Inr base64d \<Rightarrow>
          (case load_payload E base64d of
             None \<Rightarrow> Inl BadPayload
           | Some payload \<Rightarrow> Inr payload))"

section \<open>bcrypt: checking a password\<close>

text \<open>
  \<open>bcrypt.hashpw(password, salt)\<close> wants its second argument to hold a version, a cost
  and the salt characters, separated by \<open>$\<close>; a stored hash carries the digest after
  the salt. \<open>salt_fields\<close> are the non-empty pieces between the \<open>$\<close> signs. With fewer
  than three of them bcrypt raises \<open>ValueError("Invalid salt")\<close>: the Rust code of the
  releases from 4.0.1 on tests for exactly three such pieces first, and the C code of
  the releases before refuses such a string too. What
  happens with three or more (the checks of the version, the cost and the salt
  characters, and the key derivation itself) differs between releases: for one, too
  short a salt raises \<open>ValueError\<close> from bcrypt 4.3.0 on and \<open>PanicException\<close> in the
  releases 4.0.1 to 4.2.1. That part is the parameter \<open>bcrypt_kdf\<close>.
  \<open>bcrypt.checkpw\<close> hashes the password with the stored hash as salt and compares the
  result with the stored hash.
\<close>

fun split_dollar :: "string \<Rightarrow> string list" where
  "split_dollar [] = [[]]"
| "split_dollar (c # cs) =
     (if c = CHR ''$'' then [] # split_dollar cs
      else (case split_dollar cs of
              f # fs \<Rightarrow> (c # f) # fs
            | [] \<Rightarrow> [[c]]))"

definition salt_fields :: "string \<Rightarrow> string list" where
  "salt_fields salt = filter (\<lambda>f. f \<noteq> []) (split_dollar salt)"

definition bcrypt_hashpw :: "env \<Rightarrow> string \<Rightarrow> string \<Rightarrow> exn + string" where
  "bcrypt_hashpw E password salt =
     (if length (salt_fields salt) < 3 then Inl ValueError
      else bcrypt_kdf E password salt)"

definition bcrypt_checkpw :: "env \<Rightarrow> string \<Rightarrow> string \<Rightarrow> exn + bool" where
  "bcrypt_checkpw E password hashed_password =
     (case bcrypt_hashpw E password hashed_password of
        Inl e \<Rightarrow> Inl e
      | Inr h \<Rightarrow> Inr (h = hashed_password))"

section \<open>The administrator table, requests and responses\<close>

text \<open>
  A row of the \<open>admins\<close> table (\<open>app/models.py\<close>); the primary key \<open>id\<close> is the field
  \<open>admin_id\<close>. The column \<open>is_active\<close> is a nullable Boolean: \<open>None\<close> is SQL NULL, which
  Python's \<open>not\<close> treats like \<open>False\<close>. The database is the list of rows;
  \<open>username\<close> carries a uniqueness constraint. A request is modelled by its cookies,
  a response by what was rendered (the template with the \<open>error\<close> entry of its
  context, or the redirect with its target and status code) and the cookies set on
  it; the field \<open>val\<close> of a cookie is its value.
\<close>

record admin =
  admin_id :: int
  username :: string
  password_hash :: string
  is_active :: "bool option"

record request =
  cookies :: "string \<rightharpoonup> string"

record cookie =
  key :: string
  val :: string
  httponly :: bool
  samesite :: string
  max_age :: int

datatype body =
  TemplateResponse string "string option"
| RedirectResponse string nat

record response =
  body :: body
  set_cookies :: "cookie list"

section \<open>app/auth.py\<close>

definition SESSION_COOKIE_NAME :: string where
  "SESSION_COOKIE_NAME = ''kdp_admin_session''"

definition verify_password :: "env \<Rightarrow> string \<Rightarrow> string \<Rightarrow> exn + bool" where
  "verify_password E plain_password hashed_password =
     bcrypt_checkpw E plain_password hashed_password"

definition create_session_token :: "env \<Rightarrow> clock \<Rightarrow> int \<Rightarrow> string \<Rightarrow> string" where
  "create_session_token E now aid uname =
     (let data = JObj [(''admin_id'', JInt aid), (''username'', JStr uname)]
      in serializer_dumps E now data)"

text \<open>\<open>verify_session_token\<close> catches \<open>BadSignature\<close> (with its subclasses) and
  \<open>SignatureExpired\<close> and returns \<open>None\<close> for them; any other exception propagates.\<close>

definition verify_session_token :: "env \<Rightarrow> clock \<Rightarrow> string \<Rightarrow> exn + json option" where
  "verify_session_token E now token =
     (let max_age' = ADMIN_SESSION_EXPIRE_MINUTES E * 60
      in case serializer_loads E now token max_age' of
           Inr data \<Rightarrow> Inr (Some data)
         | Inl e \<Rightarrow> if isinstance_BadSignature e then Inr None else Inl e)"

definition authenticate_admin :: "env \<Rightarrow> admin list \<Rightarrow> string \<Rightarrow> string \<Rightarrow> exn + admin option" where
  "authenticate_admin E db uname password =
     (case find (\<lambda>a. username a = uname) db of
        None \<Rightarrow> Inr None
      | Some a \<Rightarrow>
          if is_active a \<noteq> Some True then Inr None
          else
            (case verify_password E password (password_hash a) of
               Inl e \<Rightarrow> Inl e
             | Inr ok \<Rightarrow> if \<not> ok then Inr None else Inr (Some a)))"

definition get_current_admin :: "env \<Rightarrow> clock \<Rightarrow> request \<Rightarrow> exn + json option" where
  "get_current_admin E now req =
     (case cookies req SESSION_COOKIE_NAME of
        None \<Rightarrow> Inr None
      | Some token \<Rightarrow>
          if token = [] then Inr None
          else verify_session_token E now token)"

definition require_admin :: "env \<Rightarrow> clock \<Rightarrow> request \<Rightarrow> exn + json" where
  "require_admin E now req =
     (case get_current_admin E now req of
        Inl e \<Rightarrow> Inl e
      | Inr None \<Rightarrow> Inl (HTTPException 303 [(''Location'', ''/admin/login'')])
      | Inr (Some admin_data) \<Rightarrow>
          if \<not> truthy admin_data
          then Inl (HTTPException 303 [(''Location'', ''/admin/login'')])
          else Inr admin_data)"

definition set_session_cookie :: "env \<Rightarrow> clock \<Rightarrow> response \<Rightarrow> admin \<Rightarrow> response" where
  "set_session_cookie E now resp a =
     (let token = create_session_token E now (admin_id a) (username a)
      in resp\<lparr>set_cookies := set_cookies resp @
           [\<lparr>key = SESSION_COOKIE_NAME, val = token, httponly = True,
             samesite = ''lax'', max_age = ADMIN_SESSION_EXPIRE_MINUTES E * 60\<rparr>]\<rparr>)"

section \<open>app/routers/admin.py\<close>

definition login_page :: "env \<Rightarrow> clock \<Rightarrow> request \<Rightarrow> exn + response" where
  "login_page E now req =
     (case get_current_admin E now req of
        Inl e \<Rightarrow> Inl e
      | Inr r \<Rightarrow>
          if (case r of None \<Rightarrow> False | Some d \<Rightarrow> truthy d)
          then Inr \<lparr>body = RedirectResponse ''/admin'' 303, set_cookies = []\<rparr>
          else Inr \<lparr>body = TemplateResponse ''admin/login.html'' None, set_cookies = []\<rparr>)"

definition login_submit :: "env \<Rightarrow> clock \<Rightarrow> admin list \<Rightarrow> string \<Rightarrow> string \<Rightarrow> exn + response" where
  "login_submit E now db uname password =
     (case authenticate_admin E db uname password of
        Inl e \<Rightarrow> Inl e
      | Inr None \<Rightarrow>
          Inr \<lparr>body = TemplateResponse ''admin/login.html'' (Some ''Identifiants invalides''),
               set_cookies = []\<rparr>
      | Inr (Some a) \<Rightarrow>
          Inr (set_session_cookie E now
                 \<lparr>body = RedirectResponse ''/admin'' 303, set_cookies = []\<rparr> a))"

section \<open>The parts of an issued token\<close>

text \<open>
  The text a token's signature covers, as \<open>TimestampSigner.sign\<close> builds it: the
  encoded payload, the separator and the encoded timestamp. The token is this text,
  the separator and the encoded signature.
\<close>

definition signed_text :: "env \<Rightarrow> clock \<Rightarrow> json \<Rightarrow> string" where
  "signed_text E now obj = dump_payload E obj @ ''.'' @ base64_encode (int_to_bytes now)"

section \<open>Why a login attempt fails\<close>



section \<open>Sample data\<close>

text \<open>
  A sample environment for concrete runs: the defaults of \<open>settings.py\<close> (a session of
  480 minutes, the default \<open>SECRET_KEY\<close>) with the library primitives tabulated at the
  inputs the runs use. \<open>sample_digest\<close> gives the HMAC-SHA1 of two messages under the
  key itsdangerous derives from the default \<open>SECRET_KEY\<close> (and twenty zero bytes for
  any other message, which no run below relies on for an accepted signature);
  \<open>sample_dump_payload\<close> and \<open>sample_load_payload\<close> are the payload codec at the
  session data of the administrator with id 1 and username \<open>admin\<close>; \<open>sample_kdf\<close>
  gives the bcrypt hashes of the passwords \<open>admin123\<close> and \<open>wrong\<close> with the stored
  hash of the sample administrator as salt (cost 12), and \<open>ValueError\<close> at any other
  input, which no run below relies on. \<open>sample_token\<close> is the token itsdangerous
  issues for that administrator at time 1700000000.
\<close>

definition sample_payload :: json where
  "sample_payload = JObj [(''admin_id'', JInt 1), (''username'', JStr ''admin'')]"

definition sample_digest :: "string \<Rightarrow> string" where
  "sample_digest msg =
     (if msg = ''eyJhZG1pbl9pZCI6MSwidXNlcm5hbWUiOiJhZG1pbiJ9.ZVPxAA''
      then map char_of [144, 215, 33, 118, 186, 38, 91, 7, 68, 68, 196, 119, 46, 56, 135,
                        213, 191, 184, 82, 85 :: nat]
      else if msg = ''fyJhZG1pbl9pZCI6MSwidXNlcm5hbWUiOiJhZG1pbiJ9.ZVPxAA''
      then map char_of [158, 78, 117, 125, 13, 128, 104, 177, 179, 148, 179, 236, 169, 217,
                        85, 28, 174, 164, 107, 119 :: nat]
      else map char_of [0, 0, 0, 0, 0, 0, 0, 0, 0, 0, 0, 0, 0, 0, 0, 0, 0, 0, 0, 0 :: nat])"

definition sample_dump_payload :: "json \<Rightarrow> string" where
  "sample_dump_payload obj =
     (if obj = sample_payload then ''eyJhZG1pbl9pZCI6MSwidXNlcm5hbWUiOiJhZG1pbiJ9'' else [])"

definition sample_load_payload :: "string \<Rightarrow> json option" where
  "sample_load_payload s =
     (if s = ''eyJhZG1pbl9pZCI6MSwidXNlcm5hbWUiOiJhZG1pbiJ9'' then Some sample_payload
      else None)"

definition sample_kdf :: "string \<Rightarrow> string \<Rightarrow> exn + string" where
  "sample_kdf password salt =
     (if salt = ''$2b$12$abcdefghijklmnopqrstuu8nVP5YIGOh70Ay1z97h1tTXrbCO0wzK'' then
        (if password = ''admin123''
         then Inr ''$2b$12$abcdefghijklmnopqrstuu8nVP5YIGOh70Ay1z97h1tTXrbCO0wzK''
         else if password = ''wrong''
         then Inr ''$2b$12$abcdefghijklmnopqrstuuNgVbSd6RkVIz.ZDWG7lTT9JMQcjr1Ke''
         else Inl ValueError)
      else Inl ValueError)"

definition sample_env :: env where
  "sample_env =
     \<lparr>ADMIN_SESSION_EXPIRE_MINUTES = 480, hmac_digest = sample_digest,
      dump_payload = sample_dump_payload, load_payload = sample_load_payload,
      bcrypt_kdf = sample_kdf\<rparr>"

definition sample_admin :: admin where
  "sample_admin =
     \<lparr>admin_id = 1, username = ''admin'',
      password_hash = ''$2b$12$abcdefghijklmnopqrstuu8nVP5YIGOh70Ay1z97h1tTXrbCO0wzK'',
      is_active = Some True\<rparr>"

definition inactive_admin :: admin where
  "inactive_admin =
     \<lparr>admin_id = 2, username = ''bob'',
      password_hash = ''$2b$12$abcdefghijklmnopqrstuu8nVP5YIGOh70Ay1z97h1tTXrbCO0wzK'',
      is_active = Some False\<rparr>"

definition sample_db :: "admin list" where
  "sample_db = [sample_admin, inactive_admin]"

text \<open>A table whose one row, an active administrator, holds a string that is no
  bcrypt hash.\<close>

definition broken_admin :: admin where
  "broken_admin =
     \<lparr>admin_id = 3, username = ''carol'', password_hash = ''not-a-hash'',
      is_active = Some True\<rparr>"

definition broken_db :: "admin list" where
  "broken_db = [broken_admin]"

definition sample_token :: string where
  "sample_token =
     ''eyJhZG1pbl9pZCI6MSwidXNlcm5hbWUiOiJhZG1pbiJ9.ZVPxAA.kNchdromWwdERMR3LjiH1b-4UlU''"

text \<open>The sample token with the first character of its payload changed, and with the
  last character of its signature changed from \<open>U\<close> to \<open>V\<close>.\<close>

definition forged_token :: string where
  "forged_token =
     ''fyJhZG1pbl9pZCI6MSwidXNlcm5hbWUiOiJhZG1pbiJ9.ZVPxAA.kNchdromWwdERMR3LjiH1b-4UlU''"

definition altered_token :: string where
  "altered_token =
     ''eyJhZG1pbl9pZCI6MSwidXNlcm5hbWUiOiJhZG1pbiJ9.ZVPxAA.kNchdromWwdERMR3LjiH1b-4UlV''"

section \<open>Base64: decoding what was encoded\<close>

lemma less64:
  "(i::nat) < 64 \<Longrightarrow>
   i \<in>
      {63, 62, 61, 60, 59, 58, 57, 56, 55, 54, 53, 52, 51, 50, 49, 48, 47, 46, 45, 44,
      43, 42, 41, 40, 39, 38, 37, 36, 35, 34, 33, 32, 31, 30, 29, 28, 27, 26, 25, 24,
      23, 22, 21, 20, 19, 18, 17, 16, 15, 14, 13, 12, 11, 10, 9, 8, 7, 6, 5, 4, 3, 2, 1,
      0}"
  by (simp, arith)

lemma b64val_b64chars: "i < 64 \<Longrightarrow> b64val (b64chars ! i) = Some i"
  by (drule less64) (auto simp add: b64chars_def b64val_def)

lemma b64chars_not_special:
  "i < 64 \<Longrightarrow> b64chars ! i \<noteq> CHR ''='' \<and> b64chars ! i \<noteq> CHR ''.''"
  by (drule less64) (auto simp add: b64chars_def)

lemma replicate_2: "replicate 2 x = [x, x]"
  by (simp add: numeral_2_eq_2)

lemma replicate_3: "replicate 3 x = [x, x, x]"
  by (simp add: numeral_3_eq_3)

lemma a2b_loop_0:
  "i < 64 \<Longrightarrow> a2b_loop 0 l p out (b64chars ! i # cs) = a2b_loop 1 i 0 out cs"
  using b64val_b64chars[of i] b64chars_not_special[of i] by simp

lemma a2b_loop_1:
  "i < 64 \<Longrightarrow> a2b_loop 1 l p out (b64chars ! i # cs) =
     a2b_loop 2 (i mod 16) 0 (out @ [char_of (l * 4 + i div 16)]) cs"
  using b64val_b64chars[of i] b64chars_not_special[of i] by simp

lemma a2b_loop_2:
  "i < 64 \<Longrightarrow> a2b_loop 2 l p out (b64chars ! i # cs) =
     a2b_loop 3 (i mod 4) 0 (out @ [char_of (l * 16 + i div 4)]) cs"
  using b64val_b64chars[of i] b64chars_not_special[of i] by simp

lemma a2b_loop_3:
  "i < 64 \<Longrightarrow> a2b_loop 3 l p out (b64chars ! i # cs) =
     a2b_loop 0 0 0 (out @ [char_of (l * 64 + i)]) cs"
  using b64val_b64chars[of i] b64chars_not_special[of i] by simp

lemma sextet_bounds:
  fixes x y z :: nat
  assumes "x < 256" "y < 256" "z < 256"
  shows "x div 4 < 64" "(x mod 4) * 16 + y div 16 < 64" "(y mod 16) * 4 + z div 64 < 64"
    "z mod 64 < 64" "(x mod 4) * 16 < 64" "(y mod 16) * 4 < 64"
proof -
  have a: "x mod 4 < 4" "y mod 16 < 16" by simp_all
  have b: "y div 16 < 16" "z div 64 < 4" "x div 4 < 64"
    using assms by (simp_all add: less_mult_imp_div_less)
  show "x div 4 < 64" by (rule b)
  show "(x mod 4) * 16 + y div 16 < 64" using a b by linarith
  show "(y mod 16) * 4 + z div 64 < 64" using a b by linarith
  show "z mod 64 < 64" by simp
  show "(x mod 4) * 16 < 64" using a by linarith
  show "(y mod 16) * 4 < 64" using a by linarith
qed

lemma octet_rebuild:
  fixes x y z :: nat
  assumes "y < 256" "z < 256"
  shows "(x div 4) * 4 + ((x mod 4) * 16 + y div 16) div 16 = x"
    "(((x mod 4) * 16 + y div 16) mod 16) * 16 + ((y mod 16) * 4 + z div 64) div 4 = y"
    "(((y mod 16) * 4 + z div 64) mod 4) * 64 + z mod 64 = z"
    "(x div 4) * 4 + ((x mod 4) * 16) div 16 = x"
    "(((x mod 4) * 16 + y div 16) mod 16) * 16 + ((y mod 16) * 4) div 4 = y"
proof -
  have b: "y div 16 < 16" "z div 64 < 4"
    using assms by (simp_all add: less_mult_imp_div_less)
  have y16: "(y div 16) div 16 = 0" "(y div 16) mod 16 = y div 16" using b by simp_all
  have z64: "(z div 64) div 4 = 0" "(z div 64) mod 4 = z div 64" using b by simp_all
  show "(x div 4) * 4 + ((x mod 4) * 16 + y div 16) div 16 = x"
    by (simp add: y16)
  show "(((x mod 4) * 16 + y div 16) mod 16) * 16 + ((y mod 16) * 4 + z div 64) div 4 = y"
    by (simp add: y16 z64)
  show "(((y mod 16) * 4 + z div 64) mod 4) * 64 + z mod 64 = z"
    by (simp add: z64)
  show "(x div 4) * 4 + ((x mod 4) * 16) div 16 = x"
    by simp
  show "(((x mod 4) * 16 + y div 16) mod 16) * 16 + ((y mod 16) * 4) div 4 = y"
    by (simp add: y16)
qed

lemma a2b_loop_quad:
  assumes "i1 < 64" "i2 < 64" "i3 < 64" "i4 < 64"
  shows "a2b_loop 0 l p out (b64chars ! i1 # b64chars ! i2 # b64chars ! i3 # b64chars ! i4 # cs) =
     a2b_loop 0 0 0
       (out @ [char_of (i1 * 4 + i2 div 16), char_of ((i2 mod 16) * 16 + i3 div 4),
               char_of ((i3 mod 4) * 64 + i4)]) cs"
  by (simp only: a2b_loop_0[OF assms(1)] a2b_loop_1[OF assms(2)] a2b_loop_2[OF assms(3)]
      a2b_loop_3[OF assms(4)] append_assoc append_Cons append_Nil)

lemma a2b_loop_encode:
  "a2b_loop 0 l p out
     (base64_encode bs @ replicate ((4 - length (base64_encode bs) mod 4) mod 4) (CHR ''=''))
   = Some (out @ bs)"
proof (induction bs arbitrary: l p out rule: base64_encode.induct)
  case (1 a b c rest)
  let ?x = "of_char a :: nat" and ?y = "of_char b :: nat" and ?z = "of_char c :: nat"
  have lt: "?x < 256" "?y < 256" "?z < 256" by simp_all
  note sb = sextet_bounds[OF lt] and ob = octet_rebuild[OF lt(2,3)]
  have len: "(4 - length (base64_encode (a # b # c # rest)) mod 4) mod 4
      = (4 - length (base64_encode rest) mod 4) mod 4"
    by (simp add: mod_Suc)
  have "a2b_loop 0 l p out
     (base64_encode (a # b # c # rest) @
      replicate ((4 - length (base64_encode (a # b # c # rest)) mod 4) mod 4) (CHR ''=''))
    = a2b_loop 0 0 0 (out @ [a, b, c]) (base64_encode rest @
      replicate ((4 - length (base64_encode rest) mod 4) mod 4) (CHR ''=''))"
    unfolding len
    by (simp only: base64_encode.simps append_Cons append_Nil
        a2b_loop_quad[OF sb(1) sb(2) sb(3) sb(4)] ob char_of_char)
  then show ?case by (simp add: "1.IH")
next
  case (2 a b)
  let ?x = "of_char a :: nat" and ?y = "of_char b :: nat"
  have lt: "?x < 256" "?y < 256" "?y < 256" by simp_all
  note sb = sextet_bounds[OF lt] and ob = octet_rebuild[OF lt(2,3)]
  have "a2b_loop 0 l p out (base64_encode [a, b] @ [CHR ''=''])
    = a2b_loop 3 (((?y mod 16) * 4) mod 4) 0 (out @ [a, b]) [CHR ''='']"
    by (simp only: base64_encode.simps append_Cons append_Nil append_assoc
        a2b_loop_0[OF sb(1)] a2b_loop_1[OF sb(2)] a2b_loop_2[OF sb(6)] ob char_of_char)
  then show ?case by simp
next
  case (3 a)
  let ?x = "of_char a :: nat"
  have lt: "?x < 256" "?x < 256" "?x < 256" by simp_all
  note sb = sextet_bounds[OF lt] and ob = octet_rebuild[OF lt(2,3)]
  have "a2b_loop 0 l p out (base64_encode [a] @ [CHR ''='', CHR ''=''])
    = a2b_loop 2 (((?x mod 4) * 16) mod 16) 0 (out @ [a]) [CHR ''='', CHR ''='']"
    by (simp only: base64_encode.simps append_Cons append_Nil append_assoc
        a2b_loop_0[OF sb(1)] a2b_loop_1[OF sb(5)] ob char_of_char)
  then show ?case by (simp add: replicate_2)
next
  case 4
  show ?case by simp
qed

lemma base64_decode_encode: "base64_decode (base64_encode bs) = Some bs"
  using a2b_loop_encode[of 0 0 "[]" bs] by (simp add: base64_decode_def)

lemma base64_encode_sextets:
  "set (base64_encode bs) \<subseteq> (!) b64chars ` {..<64}"
proof (induction bs rule: base64_encode.induct)
  case (1 a b c rest)
  have lt: "(of_char a :: nat) < 256" "(of_char b :: nat) < 256" "(of_char c :: nat) < 256"
    by simp_all
  note sb = sextet_bounds[OF lt]
  from "1.IH" sb show ?case by (auto intro!: imageI)
next
  case (2 a b)
  have lt: "(of_char a :: nat) < 256" "(of_char b :: nat) < 256" "(of_char b :: nat) < 256"
    by simp_all
  note sb = sextet_bounds[OF lt]
  from sb show ?case by (auto intro!: imageI)
next
  case (3 a)
  have lt: "(of_char a :: nat) < 256" "(of_char a :: nat) < 256" "(of_char a :: nat) < 256"
    by simp_all
  note sb = sextet_bounds[OF lt]
  from sb show ?case by (auto intro!: imageI)
next
  case 4
  then show ?case by simp
qed

lemma base64_encode_no_sep: "CHR ''.'' \<notin> set (base64_encode bs)"
proof
  assume "CHR ''.'' \<in> set (base64_encode bs)"
  with base64_encode_sextets[of bs] obtain i where "i < 64" "CHR ''.'' = b64chars ! i"
    by blast
  with b64chars_not_special[of i] show False by simp
qed

lemma rsplit_sep_None: "rsplit_sep s = None \<longleftrightarrow> CHR ''.'' \<notin> set s"
  by (induction s) (auto split: option.splits)

lemma rsplit_sep_append:
  "CHR ''.'' \<notin> set b \<Longrightarrow> rsplit_sep (a @ CHR ''.'' # b) = Some (a, b)"
  by (induction a) (simp_all add: rsplit_sep_None[THEN iffD2])

lemma rsplit_sep_Some:
  "rsplit_sep s = Some (a, b) \<Longrightarrow> s = a @ CHR ''.'' # b \<and> CHR ''.'' \<notin> set b"
  by (induction s arbitrary: a) (auto split: option.splits if_splits simp: rsplit_sep_None)

lemma be_value_zero: "be_value (char_of (0::nat) # bs) = be_value bs"
  by (simp add: be_value_def)

lemma be_value_lstrip:
  "be_value (dropWhile (\<lambda>c. c = char_of (0::nat)) bs) = be_value bs"
  by (induction bs) (simp_all add: be_value_zero)

lemma div_256_step: "(n div (m * 256)) * 256 + (n div m) mod 256 = n div (m::nat)"
  by (simp add: div_mult2_eq)

lemma be_value_pack_Q: "be_value (pack_Q num) = unat num"
proof -
  let ?n = "unat num"
  have top: "?n div 2 ^ 56 < 256"
  proof -
    have "?n < 2 ^ 64" using unsigned_less[of num] by simp
    then show ?thesis by (simp add: less_mult_imp_div_less)
  qed
  have s: "\<And>m. (?n div (m * 256)) * 256 + (?n div m) mod 256 = ?n div m"
    by (rule div_256_step)
  have "be_value (pack_Q num) =
    (((((((?n div 2 ^ 56 mod 256) * 256 + ?n div 2 ^ 48 mod 256) * 256
      + ?n div 2 ^ 40 mod 256) * 256 + ?n div 2 ^ 32 mod 256) * 256
      + ?n div 2 ^ 24 mod 256) * 256 + ?n div 2 ^ 16 mod 256) * 256
      + ?n div 2 ^ 8 mod 256) * 256 + ?n mod 256"
    by (simp add: be_value_def pack_Q_def Let_def)
  also have "?n div 2 ^ 56 mod 256 = ?n div 2 ^ 56" using top by simp
  also have "(?n div 2 ^ 56) * 256 + ?n div 2 ^ 48 mod 256 = ?n div 2 ^ 48"
    using s[of "2 ^ 48"] by simp
  also have "(?n div 2 ^ 48) * 256 + ?n div 2 ^ 40 mod 256 = ?n div 2 ^ 40"
    using s[of "2 ^ 40"] by simp
  also have "(?n div 2 ^ 40) * 256 + ?n div 2 ^ 32 mod 256 = ?n div 2 ^ 32"
    using s[of "2 ^ 32"] by simp
  also have "(?n div 2 ^ 32) * 256 + ?n div 2 ^ 24 mod 256 = ?n div 2 ^ 24"
    using s[of "2 ^ 24"] by simp
  also have "(?n div 2 ^ 24) * 256 + ?n div 2 ^ 16 mod 256 = ?n div 2 ^ 16"
    using s[of "2 ^ 16"] by simp
  also have "(?n div 2 ^ 16) * 256 + ?n div 2 ^ 8 mod 256 = ?n div 2 ^ 8"
    using s[of "2 ^ 8"] by simp
  also have "(?n div 2 ^ 8) * 256 + ?n mod 256 = ?n"
    using s[of 1] by simp
  finally show ?thesis .
qed

lemma length_int_to_bytes: "length (int_to_bytes t) \<le> 8"
proof -
  have "length (int_to_bytes t) \<le> length (pack_Q t)"
    unfolding int_to_bytes_def by (rule length_dropWhile_le)
  then show ?thesis by (simp add: pack_Q_def Let_def)
qed

lemma bytes_to_int_int_to_bytes: "bytes_to_int (int_to_bytes num) = Some (unat num)"
proof -
  have "be_value (int_to_bytes num) = unat num"
    by (simp add: int_to_bytes_def be_value_lstrip be_value_pack_Q)
  with length_int_to_bytes[of num] show ?thesis by (simp add: bytes_to_int_def)
qed

lemma verify_signature_encode:
  "verify_signature E v (base64_encode (hmac_digest E v))"
  by (simp add: verify_signature_def base64_decode_encode)

lemma signer_unsign_signed:
  "signer_unsign E (v @ CHR ''.'' # base64_encode (hmac_digest E v)) = Inr v"
  by (simp add: signer_unsign_def rsplit_sep_append base64_encode_no_sep
      verify_signature_encode)

lemma timestamp_unsign_sign:
  "timestamp_unsign E now (timestamp_sign E t v) m =
     (if m < int (unat now) - int (unat t) \<or> int (unat now) - int (unat t) < 0
      then Inl SignatureExpired else Inr v)"
proof -
  let ?ts = "base64_encode (int_to_bytes t)"
  let ?v' = "v @ CHR ''.'' # ?ts"
  have sign: "timestamp_sign E t v = ?v' @ CHR ''.'' # base64_encode (hmac_digest E ?v')"
    by (simp add: timestamp_sign_def Let_def)
  have s1: "signer_unsign E (timestamp_sign E t v) = Inr ?v'"
    unfolding sign by (rule signer_unsign_signed)
  have s2: "rsplit_sep ?v' = Some (v, ?ts)"
    by (rule rsplit_sep_append) (rule base64_encode_no_sep)
  show ?thesis
    unfolding timestamp_unsign_def s1
    by (simp add: s2 base64_decode_encode bytes_to_int_int_to_bytes Let_def)
qed

lemma serializer_loads_dumps:
  "serializer_loads E now (serializer_dumps E t obj) m =
     (if m < int (unat now) - int (unat t) \<or> int (unat now) - int (unat t) < 0
      then Inl SignatureExpired
      else (case load_payload E (dump_payload E obj) of
              None \<Rightarrow> Inl BadPayload
            | Some payload \<Rightarrow> Inr payload))"
  by (simp add: serializer_loads_def serializer_dumps_def timestamp_unsign_sign)

lemma serializer_dumps_nonempty: "serializer_dumps E t obj \<noteq> []"
  by (simp add: serializer_dumps_def timestamp_sign_def Let_def)

lemma find_unique:
  "a \<in> set db \<Longrightarrow> distinct (map username db) \<Longrightarrow>
   find (\<lambda>x. username x = username a) db = Some a"
  by (induction db) (auto simp: image_iff)

section \<open>Concrete runs in the sample environment\<close>

lemmas sample_simps = sample_env_def sample_digest_def sample_dump_payload_def
  sample_load_payload_def sample_kdf_def sample_payload_def sample_admin_def
  inactive_admin_def sample_db_def sample_token_def forged_token_def altered_token_def
  broken_admin_def broken_db_def

lemmas token_simps = create_session_token_def serializer_dumps_def timestamp_sign_def
  int_to_bytes_def pack_Q_def b64chars_def serializer_loads_def timestamp_unsign_def
  signer_unsign_def verify_signature_def base64_decode_def b64val_def bytes_to_int_def
  be_value_def replicate_2 replicate_3

lemmas password_simps = verify_password_def bcrypt_checkpw_def bcrypt_hashpw_def
  salt_fields_def

lemma sample_token_issued:
  "create_session_token sample_env 1700000000 1 ''admin'' = sample_token"
  by (simp add: sample_simps token_simps)

lemma sample_password_ok:
  "verify_password sample_env ''admin123'' (password_hash sample_admin) = Inr True"
  by (simp add: sample_simps password_simps)

lemma sample_password_wrong:
  "verify_password sample_env ''wrong'' (password_hash sample_admin) = Inr False"
  by (simp add: sample_simps password_simps)

section \<open>Login: who authenticates\<close>

text \<open>
  Claim C5. An administrator whose \<open>is_active\<close> flag is not true never authenticates:
  for every password, \<open>authenticate_admin\<close> returns \<open>None\<close> and \<open>login_submit\<close>
  renders the login form with the error message and sets no cookie. The password is
  not looked at, so this holds when it matches the stored hash too (the run below
  submits the matching password). The administrator is a row of the table, whose
  usernames are unique.
\<close>

theorem inactive_admin_never_authenticates:
  assumes "a \<in> set db" and "distinct (map username db)" and "is_active a \<noteq> Some True"
  shows "authenticate_admin E db (username a) password = Inr None \<and>
         login_submit E now db (username a) password =
           Inr \<lparr>body = TemplateResponse ''admin/login.html'' (Some ''Identifiants invalides''),
                set_cookies = []\<rparr>"
  using assms by (simp add: authenticate_admin_def login_submit_def find_unique)

theorem inactive_admin_never_authenticates_witness:
  "inactive_admin \<in> set sample_db \<and> distinct (map username sample_db) \<and>
   is_active inactive_admin \<noteq> Some True \<and>
   verify_password sample_env ''admin123'' (password_hash inactive_admin) = Inr True \<and>
   authenticate_admin sample_env sample_db ''bob'' ''admin123'' = Inr None \<and>
   login_submit sample_env 1700000000 sample_db ''bob'' ''admin123'' =
     Inr \<lparr>body = TemplateResponse ''admin/login.html'' (Some ''Identifiants invalides''),
          set_cookies = []\<rparr>"
proof -
  have h1: "inactive_admin \<in> set sample_db" by (simp add: sample_db_def)
  have h2: "distinct (map username sample_db)" by (simp add: sample_simps)
  have h3: "is_active inactive_admin \<noteq> Some True" by (simp add: inactive_admin_def)
  have pw: "verify_password sample_env ''admin123'' (password_hash inactive_admin) = Inr True"
    by (simp add: sample_simps password_simps)
  have u: "username inactive_admin = ''bob''" by (simp add: inactive_admin_def)
  from inactive_admin_never_authenticates[OF h1 h2 h3, of sample_env "''admin123''" 1700000000]
  show ?thesis using h1 h2 h3 pw unfolding u by simp
qed




section \<open>The session cookie and the token it carries\<close>

text \<open>
  Claim C9. The cookie lifetime and the token validity window are the same number:
  \<open>set_session_cookie\<close> appends one cookie whose max-age is
  \<open>ADMIN_SESSION_EXPIRE_MINUTES * 60\<close>, and \<open>verify_session_token\<close> hands that very
  number to the serializer as the maximum age, for every token. So the token the
  cookie carries is refused exactly when its age exceeds the cookie's max-age (or is
  negative), and decoded otherwise.
\<close>

theorem cookie_max_age_is_token_max_age:
  "\<exists>c. set_cookies (set_session_cookie E t resp a) = set_cookies resp @ [c] \<and>
       key c = SESSION_COOKIE_NAME \<and>
       val c = create_session_token E t (admin_id a) (username a) \<and>
       max_age c = ADMIN_SESSION_EXPIRE_MINUTES E * 60 \<and>
       verify_session_token E now token =
         (case serializer_loads E now token (max_age c) of
            Inr data \<Rightarrow> Inr (Some data)
          | Inl e \<Rightarrow> if isinstance_BadSignature e then Inr None else Inl e) \<and>
       verify_session_token E now (val c) =
         (if max_age c < int (unat now) - int (unat t) \<or> int (unat now) - int (unat t) < 0
          then Inr None
          else (case load_payload E (dump_payload E
                       (JObj [(''admin_id'', JInt (admin_id a)),
                              (''username'', JStr (username a))])) of
                  None \<Rightarrow> Inl BadPayload
                | Some data \<Rightarrow> Inr (Some data)))"
  by (simp add: set_session_cookie_def verify_session_token_def create_session_token_def
      serializer_loads_dumps Let_def split: option.splits)

section \<open>Login followed by authorization\<close>

lemma get_current_admin_issued:
  assumes "cookies req SESSION_COOKIE_NAME = Some (create_session_token E t aid uname)"
  shows "get_current_admin E now req =
     (if ADMIN_SESSION_EXPIRE_MINUTES E * 60 < int (unat now) - int (unat t) \<or>
         int (unat now) - int (unat t) < 0
      then Inr None
      else (case load_payload E (dump_payload E
                   (JObj [(''admin_id'', JInt aid), (''username'', JStr uname)])) of
              None \<Rightarrow> Inl BadPayload
            | Some data \<Rightarrow> Inr (Some data)))"
  using assms serializer_dumps_nonempty
  by (simp add: get_current_admin_def verify_session_token_def create_session_token_def
      serializer_loads_dumps Let_def split: option.splits)

text \<open>
  Claim C1. Let \<open>a\<close> be a row of the administrator table (usernames unique) that is
  active and whose stored hash verifies the submitted password. Then \<open>login_submit\<close>
  at time \<open>t\<close> answers with the redirect to \<open>/admin\<close> carrying exactly one cookie, the
  session cookie; and for every request that carries that cookie's value at a time
  \<open>now\<close> not before \<open>t\<close> and at most \<open>ADMIN_SESSION_EXPIRE_MINUTES * 60\<close> seconds after it,
  \<open>get_current_admin\<close> returns the payload made of exactly \<open>a\<close>'s id and username. The
  payload codec of the library is assumed to decode what it encoded for this payload.
\<close>

theorem login_then_authorize:
  assumes "a \<in> set db" and "distinct (map username db)"
    and "is_active a = Some True"
    and "verify_password E password (password_hash a) = Inr True"
    and "load_payload E (dump_payload E
           (JObj [(''admin_id'', JInt (admin_id a)), (''username'', JStr (username a))])) =
         Some (JObj [(''admin_id'', JInt (admin_id a)), (''username'', JStr (username a))])"
    and "t \<le> now"
    and "int (unat now) - int (unat t) \<le> ADMIN_SESSION_EXPIRE_MINUTES E * 60"
    and "cookies req SESSION_COOKIE_NAME = Some (create_session_token E t (admin_id a) (username a))"
  shows "authenticate_admin E db (username a) password = Inr (Some a) \<and>
         login_submit E t db (username a) password =
           Inr \<lparr>body = RedirectResponse ''/admin'' 303,
                set_cookies =
                  [\<lparr>key = SESSION_COOKIE_NAME,
                    val = create_session_token E t (admin_id a) (username a),
                    httponly = True, samesite = ''lax'',
                    max_age = ADMIN_SESSION_EXPIRE_MINUTES E * 60\<rparr>]\<rparr> \<and>
         get_current_admin E now req =
           Inr (Some (JObj [(''admin_id'', JInt (admin_id a)),
                            (''username'', JStr (username a))]))"
proof -
  have auth: "authenticate_admin E db (username a) password = Inr (Some a)"
    using assms(1-4) by (simp add: authenticate_admin_def find_unique)
  have login: "login_submit E t db (username a) password =
           Inr \<lparr>body = RedirectResponse ''/admin'' 303,
                set_cookies =
                  [\<lparr>key = SESSION_COOKIE_NAME,
                    val = create_session_token E t (admin_id a) (username a),
                    httponly = True, samesite = ''lax'',
                    max_age = ADMIN_SESSION_EXPIRE_MINUTES E * 60\<rparr>]\<rparr>"
    by (simp add: login_submit_def auth set_session_cookie_def Let_def)
  have authz: "get_current_admin E now req =
           Inr (Some (JObj [(''admin_id'', JInt (admin_id a)),
                            (''username'', JStr (username a))]))"
  proof -
    from assms(6) have "uint t \<le> uint now" by (simp add: word_le_def)
    with assms(5,7) show ?thesis by (simp add: get_current_admin_issued[OF assms(8)])
  qed
  from auth login authz show ?thesis by simp
qed

theorem login_then_authorize_witness:
  "sample_admin \<in> set sample_db \<and> distinct (map username sample_db) \<and>
   is_active sample_admin = Some True \<and>
   verify_password sample_env ''admin123'' (password_hash sample_admin) = Inr True \<and>
   create_session_token sample_env 1700000000 1 ''admin'' = sample_token \<and>
   login_submit sample_env 1700000000 sample_db ''admin'' ''admin123'' =
     Inr \<lparr>body = RedirectResponse ''/admin'' 303,
          set_cookies =
            [\<lparr>key = ''kdp_admin_session'', val = sample_token, httponly = True,
              samesite = ''lax'', max_age = 28800\<rparr>]\<rparr> \<and>
   get_current_admin sample_env 1700003600 \<lparr>cookies = [''kdp_admin_session'' \<mapsto> sample_token]\<rparr> =
     Inr (Some (JObj [(''admin_id'', JInt 1), (''username'', JStr ''admin'')]))"
proof -
  have h1: "sample_admin \<in> set sample_db" by (simp add: sample_db_def)
  have h2: "distinct (map username sample_db)" by (simp add: sample_simps)
  have h3: "is_active sample_admin = Some True" by (simp add: sample_admin_def)
  have h4: "verify_password sample_env ''admin123'' (password_hash sample_admin) = Inr True"
    by (rule sample_password_ok)
  have h5: "load_payload sample_env (dump_payload sample_env
           (JObj [(''admin_id'', JInt (admin_id sample_admin)),
                  (''username'', JStr (username sample_admin))])) =
         Some (JObj [(''admin_id'', JInt (admin_id sample_admin)),
                     (''username'', JStr (username sample_admin))])"
    by (simp add: sample_simps)
  have h6: "(1700000000 :: clock) \<le> 1700003600" by simp
  have h7: "int (unat (1700003600 :: clock)) - int (unat (1700000000 :: clock))
      \<le> ADMIN_SESSION_EXPIRE_MINUTES sample_env * 60"
    by (simp add: sample_env_def)
  have tok: "create_session_token sample_env 1700000000 (admin_id sample_admin)
      (username sample_admin) = sample_token"
    using sample_token_issued by (simp add: sample_admin_def)
  have h8: "cookies \<lparr>cookies = [''kdp_admin_session'' \<mapsto> sample_token]\<rparr> SESSION_COOKIE_NAME =
      Some (create_session_token sample_env 1700000000 (admin_id sample_admin)
        (username sample_admin))"
    by (simp add: tok SESSION_COOKIE_NAME_def)
  from login_then_authorize[OF h1 h2 h3 h4 h5 h6 h7 h8]
  show ?thesis
    using h1 h2 h3 h4 sample_token_issued
    by (simp add: tok SESSION_COOKIE_NAME_def sample_admin_def sample_env_def)
qed

section \<open>Expiry\<close>

text \<open>
  Claim C7. Let a token be signed at time \<open>t\<close> and let the maximum age be
  \<open>ADMIN_SESSION_EXPIRE_MINUTES * 60\<close>. Verified one second after the maximum age
  (\<open>now1 = t + max_age + 1\<close>) the serializer raises \<open>SignatureExpired\<close> and
  \<open>verify_session_token\<close> returns \<open>None\<close>. Verified at exactly the maximum age
  (\<open>now2 = t + max_age\<close>) the age check gives the same answer for every token: it
  passes when the maximum age is not negative (the boundary is inclusive) and raises
  \<open>SignatureExpired\<close> when it is negative.
\<close>

theorem expiry_boundary:
  assumes "int (unat now1) = int (unat t) + ADMIN_SESSION_EXPIRE_MINUTES E * 60 + 1"
    and "int (unat now2) = int (unat t) + ADMIN_SESSION_EXPIRE_MINUTES E * 60"
  shows "serializer_loads E now1 (serializer_dumps E t obj)
           (ADMIN_SESSION_EXPIRE_MINUTES E * 60) = Inl SignatureExpired \<and>
         verify_session_token E now1 (serializer_dumps E t obj) = Inr None \<and>
         timestamp_unsign E now2 (serializer_dumps E t obj)
           (ADMIN_SESSION_EXPIRE_MINUTES E * 60) =
           (if 0 \<le> ADMIN_SESSION_EXPIRE_MINUTES E * 60 then Inr (dump_payload E obj)
            else Inl SignatureExpired) \<and>
         verify_session_token E now2 (serializer_dumps E t obj) =
           (if 0 \<le> ADMIN_SESSION_EXPIRE_MINUTES E * 60
            then (case load_payload E (dump_payload E obj) of
                    None \<Rightarrow> Inl BadPayload
                  | Some data \<Rightarrow> Inr (Some data))
            else Inr None)"
proof -
  from assms(1) have a1: "uint now1 - uint t = ADMIN_SESSION_EXPIRE_MINUTES E * 60 + 1"
    by simp
  from assms(2) have a2: "uint now2 - uint t = ADMIN_SESSION_EXPIRE_MINUTES E * 60"
    by simp
  have l1: "serializer_loads E now1 (serializer_dumps E t obj)
           (ADMIN_SESSION_EXPIRE_MINUTES E * 60) = Inl SignatureExpired"
    by (simp add: serializer_loads_dumps a1)
  have v1: "verify_session_token E now1 (serializer_dumps E t obj) = Inr None"
    by (simp add: verify_session_token_def l1)
  have u2: "timestamp_unsign E now2 (serializer_dumps E t obj)
           (ADMIN_SESSION_EXPIRE_MINUTES E * 60) =
           (if 0 \<le> ADMIN_SESSION_EXPIRE_MINUTES E * 60 then Inr (dump_payload E obj)
            else Inl SignatureExpired)"
    by (simp add: serializer_dumps_def timestamp_unsign_sign a2)
  have v2: "verify_session_token E now2 (serializer_dumps E t obj) =
           (if 0 \<le> ADMIN_SESSION_EXPIRE_MINUTES E * 60
            then (case load_payload E (dump_payload E obj) of
                    None \<Rightarrow> Inl BadPayload
                  | Some data \<Rightarrow> Inr (Some data))
            else Inr None)"
    by (simp add: verify_session_token_def serializer_loads_def u2 split: option.splits)
  from l1 v1 u2 v2 show ?thesis by simp
qed

theorem expiry_boundary_witness:
  "int (unat (1700028801 :: clock)) =
     int (unat (1700000000 :: clock)) + ADMIN_SESSION_EXPIRE_MINUTES sample_env * 60 + 1 \<and>
   int (unat (1700028800 :: clock)) =
     int (unat (1700000000 :: clock)) + ADMIN_SESSION_EXPIRE_MINUTES sample_env * 60 \<and>
   serializer_dumps sample_env 1700000000 sample_payload = sample_token \<and>
   serializer_loads sample_env 1700028801 sample_token 28800 = Inl SignatureExpired \<and>
   verify_session_token sample_env 1700028801 sample_token = Inr None \<and>
   verify_session_token sample_env 1700028800 sample_token = Inr (Some sample_payload)"
proof -
  have h1: "int (unat (1700028801 :: clock)) =
     int (unat (1700000000 :: clock)) + ADMIN_SESSION_EXPIRE_MINUTES sample_env * 60 + 1"
    by (simp add: sample_env_def)
  have h2: "int (unat (1700028800 :: clock)) =
     int (unat (1700000000 :: clock)) + ADMIN_SESSION_EXPIRE_MINUTES sample_env * 60"
    by (simp add: sample_env_def)
  have tok: "serializer_dumps sample_env 1700000000 sample_payload = sample_token"
    using sample_token_issued by (simp add: create_session_token_def sample_payload_def)
  have m: "ADMIN_SESSION_EXPIRE_MINUTES sample_env * 60 = 28800"
    by (simp add: sample_env_def)
  have codec: "load_payload sample_env (dump_payload sample_env sample_payload) =
      Some sample_payload"
    by (simp add: sample_env_def sample_dump_payload_def sample_load_payload_def)
  from expiry_boundary[OF h1 h2, of sample_payload]
  show ?thesis using h1 h2 by (simp add: tok m codec)
qed

section \<open>The authentication guard\<close>

lemma timestamp_unsign_bad_signature:
  "signer_unsign E token = Inl p \<Longrightarrow>
   timestamp_unsign E now token m = Inl BadSignature \<or>
   timestamp_unsign E now token m = Inl BadTimeSignature"
  by (auto simp: timestamp_unsign_def split: option.splits)

lemma verify_session_token_bad_signature:
  "signer_unsign E token = Inl p \<Longrightarrow> verify_session_token E now token = Inr None"
  using timestamp_unsign_bad_signature[of E token p now "ADMIN_SESSION_EXPIRE_MINUTES E * 60"]
  by (auto simp: verify_session_token_def serializer_loads_def)

lemma serializer_loads_Inr:
  assumes "serializer_loads E now token m = Inr d"
  shows "\<exists>v ts b n. signer_unsign E token = Inr (v @ CHR ''.'' # ts) \<and>
           base64_decode ts = Some b \<and> bytes_to_int b = Some n \<and>
           0 \<le> int (unat now) - int n \<and>
           int (unat now) - int n \<le> m \<and>
           load_payload E v = Some d"
proof -
  from assms obtain v where tu: "timestamp_unsign E now token m = Inr v"
    and lp: "load_payload E v = Some d"
    by (auto simp: serializer_loads_def split: sum.splits option.splits)
  from tu obtain r where su: "signer_unsign E token = Inr r"
    by (cases "signer_unsign E token")
      (auto simp: timestamp_unsign_def split: option.splits if_splits)
  from tu su obtain ts where rs: "rsplit_sep r = Some (v, ts)"
    by (auto simp: timestamp_unsign_def Let_def split: option.splits if_splits)
  from tu su rs obtain b n where b: "base64_decode ts = Some b" "bytes_to_int b = Some n"
    and age: "0 \<le> int (unat now) - int n" "int (unat now) - int n \<le> m"
    by (auto simp: timestamp_unsign_def Let_def split: option.splits if_splits)
  from rsplit_sep_Some[OF rs] have "r = v @ CHR ''.'' # ts" by simp
  with su b age lp show ?thesis by blast
qed

text \<open>
  Claim C8. The guard denies (\<open>get_current_admin\<close> returns \<open>None\<close> and \<open>require_admin\<close>
  raises the 303 redirect to the login page) for a request without the session
  cookie, for one whose token fails the signature check, and for one whose correctly
  signed token is older than the maximum age. Conversely, when \<open>get_current_admin\<close>
  returns session data, the cookie is present, its token passed the signature check,
  its timestamp decodes to at most eight bytes, its age is within
  \<open>0 .. ADMIN_SESSION_EXPIRE_MINUTES * 60\<close> and the data is the token's decoded payload; and \<open>require_admin\<close> returns only what \<open>get_current_admin\<close>
  returned.
\<close>

theorem guard_denies_or_identifies:
  "(cookies req SESSION_COOKIE_NAME = None \<longrightarrow>
      get_current_admin E now req = Inr None \<and>
      require_admin E now req = Inl (HTTPException 303 [(''Location'', ''/admin/login'')])) \<and>
   (cookies req SESSION_COOKIE_NAME = Some token \<and> signer_unsign E token = Inl p \<longrightarrow>
      get_current_admin E now req = Inr None \<and>
      require_admin E now req = Inl (HTTPException 303 [(''Location'', ''/admin/login'')])) \<and>
   (cookies req SESSION_COOKIE_NAME = Some (serializer_dumps E t obj) \<and>
    ADMIN_SESSION_EXPIRE_MINUTES E * 60 < int (unat now) - int (unat t) \<longrightarrow>
      get_current_admin E now req = Inr None \<and>
      require_admin E now req = Inl (HTTPException 303 [(''Location'', ''/admin/login'')])) \<and>
   (get_current_admin E now req = Inr (Some d) \<longrightarrow>
      (\<exists>tok v ts b n. cookies req SESSION_COOKIE_NAME = Some tok \<and>
         signer_unsign E tok = Inr (v @ CHR ''.'' # ts) \<and>
         base64_decode ts = Some b \<and> bytes_to_int b = Some n \<and>
         0 \<le> int (unat now) - int n \<and>
         int (unat now) - int n \<le> ADMIN_SESSION_EXPIRE_MINUTES E * 60 \<and>
         load_payload E v = Some d)) \<and>
   (require_admin E now req = Inr d \<longrightarrow> get_current_admin E now req = Inr (Some d))"
proof (intro conjI impI)
  assume "cookies req SESSION_COOKIE_NAME = None"
  then show "get_current_admin E now req = Inr None"
    and "require_admin E now req = Inl (HTTPException 303 [(''Location'', ''/admin/login'')])"
    by (simp_all add: get_current_admin_def require_admin_def)
next
  assume a: "cookies req SESSION_COOKIE_NAME = Some token \<and> signer_unsign E token = Inl p"
  then show g: "get_current_admin E now req = Inr None"
    by (simp add: get_current_admin_def verify_session_token_bad_signature)
  then show "require_admin E now req = Inl (HTTPException 303 [(''Location'', ''/admin/login'')])"
    by (simp add: require_admin_def)
next
  assume a: "cookies req SESSION_COOKIE_NAME = Some (serializer_dumps E t obj) \<and>
    ADMIN_SESSION_EXPIRE_MINUTES E * 60 < int (unat now) - int (unat t)"
  then show g: "get_current_admin E now req = Inr None"
    by (simp add: get_current_admin_def verify_session_token_def serializer_loads_dumps)
  then show "require_admin E now req = Inl (HTTPException 303 [(''Location'', ''/admin/login'')])"
    by (simp add: require_admin_def)
next
  assume a: "get_current_admin E now req = Inr (Some d)"
  then obtain tok where c: "cookies req SESSION_COOKIE_NAME = Some tok"
    and v: "verify_session_token E now tok = Inr (Some d)"
    by (auto simp: get_current_admin_def split: option.splits if_splits)
  from v have "serializer_loads E now tok (ADMIN_SESSION_EXPIRE_MINUTES E * 60) = Inr d"
    by (auto simp: verify_session_token_def split: sum.splits if_splits)
  from serializer_loads_Inr[OF this] c
  show "\<exists>tok v ts b n. cookies req SESSION_COOKIE_NAME = Some tok \<and>
         signer_unsign E tok = Inr (v @ CHR ''.'' # ts) \<and>
         base64_decode ts = Some b \<and> bytes_to_int b = Some n \<and>
         0 \<le> int (unat now) - int n \<and>
         int (unat now) - int n \<le> ADMIN_SESSION_EXPIRE_MINUTES E * 60 \<and>
         load_payload E v = Some d"
    by blast
next
  assume "require_admin E now req = Inr d"
  then show "get_current_admin E now req = Inr (Some d)"
    by (auto simp: require_admin_def split: sum.splits option.splits if_splits)
qed

lemma forged_token_unsign:
  "signer_unsign sample_env forged_token =
     Inl (Some ''fyJhZG1pbl9pZCI6MSwidXNlcm5hbWUiOiJhZG1pbiJ9.ZVPxAA'')"
  by (simp add: sample_simps token_simps)

lemma sample_token_loads_fresh:
  "serializer_loads sample_env 1700003600 sample_token 28800 = Inr sample_payload"
  by (simp add: sample_simps token_simps)

lemma sample_token_loads_expired:
  "serializer_loads sample_env 1700028801 sample_token 28800 = Inl SignatureExpired"
  by (simp add: sample_simps token_simps)

theorem guard_denies_or_identifies_witness:
  "cookies \<lparr>cookies = Map.empty\<rparr> SESSION_COOKIE_NAME = None \<and>
   require_admin sample_env 1700003600 \<lparr>cookies = Map.empty\<rparr> =
     Inl (HTTPException 303 [(''Location'', ''/admin/login'')]) \<and>
   signer_unsign sample_env forged_token =
     Inl (Some ''fyJhZG1pbl9pZCI6MSwidXNlcm5hbWUiOiJhZG1pbiJ9.ZVPxAA'') \<and>
   require_admin sample_env 1700003600 \<lparr>cookies = [SESSION_COOKIE_NAME \<mapsto> forged_token]\<rparr> =
     Inl (HTTPException 303 [(''Location'', ''/admin/login'')]) \<and>
   serializer_dumps sample_env 1700000000 sample_payload = sample_token \<and>
   ADMIN_SESSION_EXPIRE_MINUTES sample_env * 60 <
     int (unat (1700028801 :: clock)) - int (unat (1700000000 :: clock)) \<and>
   require_admin sample_env 1700028801 \<lparr>cookies = [SESSION_COOKIE_NAME \<mapsto> sample_token]\<rparr> =
     Inl (HTTPException 303 [(''Location'', ''/admin/login'')]) \<and>
   get_current_admin sample_env 1700003600 \<lparr>cookies = [SESSION_COOKIE_NAME \<mapsto> sample_token]\<rparr> =
     Inr (Some sample_payload) \<and>
   require_admin sample_env 1700003600 \<lparr>cookies = [SESSION_COOKIE_NAME \<mapsto> sample_token]\<rparr> =
     Inr sample_payload \<and>
   (\<exists>tok v ts b n.
      cookies \<lparr>cookies = [SESSION_COOKIE_NAME \<mapsto> sample_token]\<rparr> SESSION_COOKIE_NAME = Some tok \<and>
      signer_unsign sample_env tok = Inr (v @ CHR ''.'' # ts) \<and>
      base64_decode ts = Some b \<and> bytes_to_int b = Some n \<and>
      0 \<le> int (unat (1700003600 :: clock)) - int n \<and>
      int (unat (1700003600 :: clock)) - int n
        \<le> ADMIN_SESSION_EXPIRE_MINUTES sample_env * 60 \<and>
      load_payload sample_env v = Some sample_payload)"
proof -
  let ?none = "\<lparr>cookies = Map.empty\<rparr>"
  let ?forged = "\<lparr>cookies = [SESSION_COOKIE_NAME \<mapsto> forged_token]\<rparr>"
  let ?good = "\<lparr>cookies = [SESSION_COOKIE_NAME \<mapsto> sample_token]\<rparr>"
  have m: "ADMIN_SESSION_EXPIRE_MINUTES sample_env * 60 = 28800"
    by (simp add: sample_env_def)
  have h1: "cookies ?none SESSION_COOKIE_NAME = None" by simp
  have h2: "cookies ?forged SESSION_COOKIE_NAME = Some forged_token \<and>
      signer_unsign sample_env forged_token =
        Inl (Some ''fyJhZG1pbl9pZCI6MSwidXNlcm5hbWUiOiJhZG1pbiJ9.ZVPxAA'')"
    by (simp add: forged_token_unsign)
  have tok: "serializer_dumps sample_env 1700000000 sample_payload = sample_token"
    using sample_token_issued by (simp add: create_session_token_def sample_payload_def)
  have h3: "cookies ?good SESSION_COOKIE_NAME =
        Some (serializer_dumps sample_env 1700000000 sample_payload) \<and>
      ADMIN_SESSION_EXPIRE_MINUTES sample_env * 60 <
        int (unat (1700028801 :: clock)) - int (unat (1700000000 :: clock))"
    by (simp add: tok m)
  have nonempty: "sample_token \<noteq> []" by (simp add: sample_token_def)
  have h4: "get_current_admin sample_env 1700003600 ?good = Inr (Some sample_payload)"
    by (simp add: get_current_admin_def verify_session_token_def m nonempty
        sample_token_loads_fresh)
  have h5: "require_admin sample_env 1700003600 ?good = Inr sample_payload"
    by (simp add: require_admin_def h4 sample_payload_def)
  from guard_denies_or_identifies[where req = ?none and E = sample_env and now = 1700003600] h1
  have c1: "require_admin sample_env 1700003600 ?none =
      Inl (HTTPException 303 [(''Location'', ''/admin/login'')])"
    by blast
  from guard_denies_or_identifies[where req = ?forged and E = sample_env and now = 1700003600
      and token = forged_token] h2
  have c2: "require_admin sample_env 1700003600 ?forged =
      Inl (HTTPException 303 [(''Location'', ''/admin/login'')])"
    by blast
  from guard_denies_or_identifies[where req = ?good and E = sample_env and now = 1700028801
      and t = 1700000000 and obj = sample_payload] h3
  have c3: "require_admin sample_env 1700028801 ?good =
      Inl (HTTPException 303 [(''Location'', ''/admin/login'')])"
    by blast
  from guard_denies_or_identifies[where req = ?good and E = sample_env and now = 1700003600
      and d = sample_payload] h4
  have c4: "\<exists>tok v ts b n.
      cookies ?good SESSION_COOKIE_NAME = Some tok \<and>
      signer_unsign sample_env tok = Inr (v @ CHR ''.'' # ts) \<and>
      base64_decode ts = Some b \<and> bytes_to_int b = Some n \<and>
      0 \<le> int (unat (1700003600 :: clock)) - int n \<and>
      int (unat (1700003600 :: clock)) - int n
        \<le> ADMIN_SESSION_EXPIRE_MINUTES sample_env * 60 \<and>
      load_payload sample_env v = Some sample_payload"
    by blast
  from h1 c1 h2 c2 tok h3 c3 h4 h5 c4 show ?thesis by blast
qed

section \<open>The login page\<close>

text \<open>
  Claim C10. \<open>login_page\<close> answers with the 303 redirect to \<open>/admin\<close> whenever the
  guard admits the request, in particular for a request carrying the cookie issued by
  a login at most \<open>ADMIN_SESSION_EXPIRE_MINUTES * 60\<close> seconds ago; and when it
  renders anything else, that is the login form without an error message and the
  guard denies the request.
\<close>

theorem login_page_redirects_when_authenticated:
  "(require_admin E now req = Inr d \<longrightarrow>
      login_page E now req = Inr \<lparr>body = RedirectResponse ''/admin'' 303, set_cookies = []\<rparr>) \<and>
   (cookies req SESSION_COOKIE_NAME = Some (create_session_token E t aid uname) \<and>
    t \<le> now \<and> int (unat now) - int (unat t) \<le> ADMIN_SESSION_EXPIRE_MINUTES E * 60 \<and>
    load_payload E (dump_payload E (JObj [(''admin_id'', JInt aid), (''username'', JStr uname)]))
      = Some (JObj [(''admin_id'', JInt aid), (''username'', JStr uname)]) \<longrightarrow>
      login_page E now req = Inr \<lparr>body = RedirectResponse ''/admin'' 303, set_cookies = []\<rparr>) \<and>
   (login_page E now req = Inr r \<and> body r \<noteq> RedirectResponse ''/admin'' 303 \<longrightarrow>
      r = \<lparr>body = TemplateResponse ''admin/login.html'' None, set_cookies = []\<rparr> \<and>
      require_admin E now req = Inl (HTTPException 303 [(''Location'', ''/admin/login'')]))"
proof (intro conjI impI)
  assume "require_admin E now req = Inr d"
  then show "login_page E now req =
      Inr \<lparr>body = RedirectResponse ''/admin'' 303, set_cookies = []\<rparr>"
    by (auto simp: require_admin_def login_page_def split: sum.splits option.splits if_splits)
next
  assume a: "cookies req SESSION_COOKIE_NAME = Some (create_session_token E t aid uname) \<and>
    t \<le> now \<and> int (unat now) - int (unat t) \<le> ADMIN_SESSION_EXPIRE_MINUTES E * 60 \<and>
    load_payload E (dump_payload E (JObj [(''admin_id'', JInt aid), (''username'', JStr uname)]))
      = Some (JObj [(''admin_id'', JInt aid), (''username'', JStr uname)])"
  then have c: "cookies req SESSION_COOKIE_NAME = Some (create_session_token E t aid uname)"
    by simp
  from a have "uint t \<le> uint now" by (simp add: word_le_def)
  with a have "get_current_admin E now req =
      Inr (Some (JObj [(''admin_id'', JInt aid), (''username'', JStr uname)]))"
    by (simp add: get_current_admin_issued[OF c])
  then show "login_page E now req =
      Inr \<lparr>body = RedirectResponse ''/admin'' 303, set_cookies = []\<rparr>"
    by (simp add: login_page_def)
next
  assume a: "login_page E now req = Inr r \<and> body r \<noteq> RedirectResponse ''/admin'' 303"
  then show "r = \<lparr>body = TemplateResponse ''admin/login.html'' None, set_cookies = []\<rparr>"
    by (auto simp: login_page_def split: sum.splits option.splits if_splits)
  from a show "require_admin E now req =
      Inl (HTTPException 303 [(''Location'', ''/admin/login'')])"
    by (auto simp: login_page_def require_admin_def split: sum.splits option.splits if_splits)
qed

theorem login_page_redirects_when_authenticated_witness:
  "require_admin sample_env 1700003600 \<lparr>cookies = [SESSION_COOKIE_NAME \<mapsto> sample_token]\<rparr> =
     Inr sample_payload \<and>
   create_session_token sample_env 1700000000 1 ''admin'' = sample_token \<and>
   login_page sample_env 1700003600 \<lparr>cookies = [SESSION_COOKIE_NAME \<mapsto> sample_token]\<rparr> =
     Inr \<lparr>body = RedirectResponse ''/admin'' 303, set_cookies = []\<rparr> \<and>
   login_page sample_env 1700028800 \<lparr>cookies = [SESSION_COOKIE_NAME \<mapsto> sample_token]\<rparr> =
     Inr \<lparr>body = RedirectResponse ''/admin'' 303, set_cookies = []\<rparr> \<and>
   login_page sample_env 1700028801 \<lparr>cookies = [SESSION_COOKIE_NAME \<mapsto> sample_token]\<rparr> =
     Inr \<lparr>body = TemplateResponse ''admin/login.html'' None, set_cookies = []\<rparr> \<and>
   require_admin sample_env 1700028801 \<lparr>cookies = [SESSION_COOKIE_NAME \<mapsto> sample_token]\<rparr> =
     Inl (HTTPException 303 [(''Location'', ''/admin/login'')])"
proof -
  let ?good = "\<lparr>cookies = [SESSION_COOKIE_NAME \<mapsto> sample_token]\<rparr>"
  let ?form = "\<lparr>body = TemplateResponse ''admin/login.html'' None, set_cookies = []\<rparr>"
  have m: "ADMIN_SESSION_EXPIRE_MINUTES sample_env * 60 = 28800"
    by (simp add: sample_env_def)
  have nonempty: "sample_token \<noteq> []" by (simp add: sample_token_def)
  have g: "get_current_admin sample_env 1700003600 ?good = Inr (Some sample_payload)"
    by (simp add: get_current_admin_def verify_session_token_def m nonempty
        sample_token_loads_fresh)
  have h1: "require_admin sample_env 1700003600 ?good = Inr sample_payload"
    by (simp add: require_admin_def g sample_payload_def)
  have h2: "cookies ?good SESSION_COOKIE_NAME =
        Some (create_session_token sample_env 1700000000 1 ''admin'') \<and>
      (1700000000 :: clock) \<le> 1700028800 \<and>
      int (unat (1700028800 :: clock)) - int (unat (1700000000 :: clock))
        \<le> ADMIN_SESSION_EXPIRE_MINUTES sample_env * 60 \<and>
      load_payload sample_env (dump_payload sample_env
          (JObj [(''admin_id'', JInt 1), (''username'', JStr ''admin'')]))
        = Some (JObj [(''admin_id'', JInt 1), (''username'', JStr ''admin'')])"
    by (simp add: sample_token_issued m)
      (simp add: sample_env_def sample_dump_payload_def sample_load_payload_def
        sample_payload_def)
  have g3: "get_current_admin sample_env 1700028801 ?good = Inr None"
    by (simp add: get_current_admin_def verify_session_token_def m nonempty
        sample_token_loads_expired)
  have h3: "login_page sample_env 1700028801 ?good = Inr ?form \<and>
      body ?form \<noteq> RedirectResponse ''/admin'' 303"
    by (simp add: login_page_def g3)
  from login_page_redirects_when_authenticated[where E = sample_env and now = 1700003600
      and req = ?good and d = sample_payload] h1
  have c1: "login_page sample_env 1700003600 ?good =
      Inr \<lparr>body = RedirectResponse ''/admin'' 303, set_cookies = []\<rparr>"
    by blast
  from login_page_redirects_when_authenticated[where E = sample_env and now = 1700028800
      and req = ?good and t = 1700000000 and aid = 1 and uname = "''admin''"] h2
  have c2: "login_page sample_env 1700028800 ?good =
      Inr \<lparr>body = RedirectResponse ''/admin'' 303, set_cookies = []\<rparr>"
    by blast
  from login_page_redirects_when_authenticated[where E = sample_env and now = 1700028801
      and req = ?good and r = ?form] h3
  have c3: "require_admin sample_env 1700028801 ?good =
      Inl (HTTPException 303 [(''Location'', ''/admin/login'')])"
    by blast
  from h1 sample_token_issued c1 c2 h3 c3 show ?thesis by blast
qed

section \<open>Password verification on a malformed hash\<close>

lemma split_dollar_nonempty: "split_dollar s \<noteq> []"
  by (induction s) (auto split: list.splits)

lemma split_dollar_no_dollar: "CHR ''$'' \<notin> set s \<Longrightarrow> split_dollar s = [s]"
  by (induction s) auto

lemma salt_fields_no_dollar: "CHR ''$'' \<notin> set s \<Longrightarrow> length (salt_fields s) < 3"
  by (simp add: salt_fields_def split_dollar_no_dollar)

text \<open>
  Claim C4, as stated, fails: for the stored string \<open>not-a-hash\<close>, \<open>verify_password\<close>
  does not return false; \<open>bcrypt.checkpw\<close> raises \<open>ValueError\<close> and \<open>verify_password\<close>
  has no handler, so the exception leaves it.
\<close>

theorem verify_password_raises_on_malformed_hash:
  "verify_password sample_env ''admin123'' ''not-a-hash'' = Inl ValueError \<and>
   verify_password sample_env ''admin123'' ''not-a-hash'' \<noteq> Inr False"
  by (simp add: sample_simps password_simps)

text \<open>
  Claim C4, amended. \<open>verify_password\<close> is a bare call of \<open>bcrypt.checkpw\<close>. For every
  password and every stored string with fewer than three non-empty fields between
  \<open>$\<close> signs (so for every string without a \<open>$\<close>) it raises \<open>ValueError\<close>; it does not
  return false. It returns a boolean only for a stored string with at least three
  such fields on which bcrypt's hashing succeeds, and the boolean says whether hashing
  the password with the stored string as salt gives the stored string back. Its
  callers have no handler either: an exception of the password check on the row of an
  active administrator leaves \<open>authenticate_admin\<close> and \<open>login_submit\<close> as it is.
  What bcrypt raises for other malformed strings is not stated.
\<close>

theorem verify_password_malformed_hash:
  "(length (salt_fields hashed) < 3 \<longrightarrow> verify_password E password hashed = Inl ValueError) \<and>
   (CHR ''$'' \<notin> set hashed \<longrightarrow> verify_password E password hashed = Inl ValueError) \<and>
   (verify_password E password hashed = Inr b \<longrightarrow>
      3 \<le> length (salt_fields hashed) \<and>
      (\<exists>h. bcrypt_kdf E password hashed = Inr h \<and> b = (h = hashed))) \<and>
   (a \<in> set db \<and> distinct (map username db) \<and> is_active a = Some True \<and>
    verify_password E password (password_hash a) = Inl e \<longrightarrow>
      authenticate_admin E db (username a) password = Inl e \<and>
      login_submit E now db (username a) password = Inl e)"
proof (intro conjI impI)
  assume "length (salt_fields hashed) < 3"
  then show "verify_password E password hashed = Inl ValueError"
    by (simp add: verify_password_def bcrypt_checkpw_def bcrypt_hashpw_def)
next
  assume "CHR ''$'' \<notin> set hashed"
  from salt_fields_no_dollar[OF this]
  show "verify_password E password hashed = Inl ValueError"
    by (simp add: verify_password_def bcrypt_checkpw_def bcrypt_hashpw_def)
next
  assume r: "verify_password E password hashed = Inr b"
  then show "3 \<le> length (salt_fields hashed)"
    by (auto simp: verify_password_def bcrypt_checkpw_def bcrypt_hashpw_def
        split: if_splits sum.splits)
  from r show "\<exists>h. bcrypt_kdf E password hashed = Inr h \<and> b = (h = hashed)"
    by (auto simp: verify_password_def bcrypt_checkpw_def bcrypt_hashpw_def
        split: if_splits sum.splits)
next
  assume h: "a \<in> set db \<and> distinct (map username db) \<and> is_active a = Some True \<and>
    verify_password E password (password_hash a) = Inl e"
  then have f: "find (\<lambda>x. username x = username a) db = Some a"
    by (simp add: find_unique)
  from h f show au: "authenticate_admin E db (username a) password = Inl e"
    by (simp add: authenticate_admin_def)
  then show "login_submit E now db (username a) password = Inl e"
    by (simp add: login_submit_def)
qed

theorem verify_password_malformed_hash_witness:
  "length (salt_fields ''not-a-hash'') < 3 \<and> CHR ''$'' \<notin> set ''not-a-hash'' \<and>
   verify_password sample_env ''admin123'' ''not-a-hash'' = Inl ValueError \<and>
   verify_password sample_env ''wrong'' (password_hash sample_admin) = Inr False \<and>
   3 \<le> length (salt_fields (password_hash sample_admin)) \<and>
   (\<exists>h. bcrypt_kdf sample_env ''wrong'' (password_hash sample_admin) = Inr h \<and>
      False = (h = password_hash sample_admin)) \<and>
   broken_admin \<in> set broken_db \<and> distinct (map username broken_db) \<and>
   is_active broken_admin = Some True \<and>
   authenticate_admin sample_env broken_db ''carol'' ''admin123'' = Inl ValueError \<and>
   login_submit sample_env 1700000000 broken_db ''carol'' ''admin123'' = Inl ValueError"
proof -
  have h1: "length (salt_fields ''not-a-hash'') < 3" by (simp add: salt_fields_def)
  have h1': "CHR ''$'' \<notin> set ''not-a-hash''" by simp
  have h2: "verify_password sample_env ''wrong'' (password_hash sample_admin) = Inr False"
    by (rule sample_password_wrong)
  have h3: "broken_admin \<in> set broken_db \<and> distinct (map username broken_db) \<and>
      is_active broken_admin = Some True"
    by (simp add: broken_db_def broken_admin_def)
  have u: "username broken_admin = ''carol''" "password_hash broken_admin = ''not-a-hash''"
    by (simp_all add: broken_admin_def)
  from verify_password_malformed_hash[where hashed = "''not-a-hash''" and E = sample_env
      and password = "''admin123''"] h1
  have c1: "verify_password sample_env ''admin123'' ''not-a-hash'' = Inl ValueError"
    by blast
  from verify_password_malformed_hash[where hashed = "password_hash sample_admin"
      and E = sample_env and password = "''wrong''" and b = False] h2
  have c2: "3 \<le> length (salt_fields (password_hash sample_admin)) \<and>
      (\<exists>h. bcrypt_kdf sample_env ''wrong'' (password_hash sample_admin) = Inr h \<and>
        False = (h = password_hash sample_admin))"
    by blast
  from verify_password_malformed_hash[where a = broken_admin and db = broken_db
      and E = sample_env and password = "''admin123''" and e = ValueError
      and now = 1700000000] h3 c1
  have c3: "authenticate_admin sample_env broken_db ''carol'' ''admin123'' = Inl ValueError \<and>
      login_submit sample_env 1700000000 broken_db ''carol'' ''admin123'' = Inl ValueError"
    unfolding u by blast
  from h1 h1' c1 h2 c2 h3 c3 show ?thesis by blast
qed

section \<open>The two ways a token is refused\<close>

text \<open>
  Claim C3, as stated, fails: the outcome of \<open>verify_session_token\<close> does not say why
  a token was refused. A token with a wrong signature and a correctly signed token
  past its maximum age both give \<open>None\<close>, although the serializer raised
  \<open>BadTimeSignature\<close> for the first and \<open>SignatureExpired\<close> for the second.
\<close>

theorem refusals_look_alike:
  "serializer_loads sample_env 1700003600 forged_token 28800 = Inl BadTimeSignature \<and>
   serializer_loads sample_env 1700028801 sample_token 28800 = Inl SignatureExpired \<and>
   verify_session_token sample_env 1700003600 forged_token = Inr None \<and>
   verify_session_token sample_env 1700028801 sample_token = Inr None"
  by (simp add: sample_simps token_simps verify_session_token_def)

text \<open>
  Claim C3, amended. The two failure kinds are distinct only inside
  \<open>verify_session_token\<close>, as the exception the serializer raises. It raises
  \<open>SignatureExpired\<close> only when the signature verifies and the timestamp decodes, from
  at most eight bytes, to an age above the maximum age or below zero; it does raise
  it whenever that holds and the timestamp lies before the year 10000 (at most
  253402300799), in particular for a token issued by \<open>create_session_token\<close> before
  then and verified more than the maximum age later. It raises \<open>BadSignature\<close> or
  \<open>BadTimeSignature\<close> when the signature does not verify. \<open>verify_session_token\<close>
  catches all of them in one handler and returns \<open>None\<close>, so its outcome does not
  identify the kind.
\<close>

theorem failure_kinds_distinct_inside_only:
  "(serializer_loads E now token m = Inl SignatureExpired \<longrightarrow>
      (\<exists>r v ts b n. signer_unsign E token = Inr r \<and> rsplit_sep r = Some (v, ts) \<and>
         base64_decode ts = Some b \<and> bytes_to_int b = Some n \<and>
         (m < int (unat now) - int n \<or> int (unat now) - int n < 0))) \<and>
   (signer_unsign E token = Inr r \<and> rsplit_sep r = Some (v, ts) \<and>
    base64_decode ts = Some b \<and> bytes_to_int b = Some n \<and> n \<le> 253402300799 \<and>
    (m < int (unat now) - int n \<or> int (unat now) - int n < 0) \<longrightarrow>
      serializer_loads E now token m = Inl SignatureExpired) \<and>
   (unat t \<le> 253402300799 \<and>
    ADMIN_SESSION_EXPIRE_MINUTES E * 60 < int (unat now) - int (unat t) \<longrightarrow>
      serializer_loads E now (create_session_token E t aid uname)
        (ADMIN_SESSION_EXPIRE_MINUTES E * 60) = Inl SignatureExpired) \<and>
   (signer_unsign E token = Inl p \<longrightarrow>
      serializer_loads E now token m = Inl BadSignature \<or>
      serializer_loads E now token m = Inl BadTimeSignature) \<and>
   (serializer_loads E now token (ADMIN_SESSION_EXPIRE_MINUTES E * 60) = Inl e \<and>
    isinstance_BadSignature e \<longrightarrow> verify_session_token E now token = Inr None)"
proof (intro conjI impI)
  assume a: "serializer_loads E now token m = Inl SignatureExpired"
  then have tu: "timestamp_unsign E now token m = Inl SignatureExpired"
    by (auto simp: serializer_loads_def split: sum.splits option.splits)
  then obtain r where su: "signer_unsign E token = Inr r"
    by (cases "signer_unsign E token")
      (auto simp: timestamp_unsign_def split: option.splits if_splits)
  from tu su obtain v ts where rs: "rsplit_sep r = Some (v, ts)"
    by (auto simp: timestamp_unsign_def Let_def split: option.splits if_splits)
  from tu su rs obtain b n where b: "base64_decode ts = Some b" "bytes_to_int b = Some n"
    and age: "m < int (unat now) - int n \<or> int (unat now) - int n < 0"
    by (auto simp: timestamp_unsign_def Let_def split: option.splits if_splits)
  with su rs show "\<exists>r v ts b n. signer_unsign E token = Inr r \<and>
       rsplit_sep r = Some (v, ts) \<and> base64_decode ts = Some b \<and> bytes_to_int b = Some n \<and>
       (m < int (unat now) - int n \<or> int (unat now) - int n < 0)"
    by blast
next
  assume "signer_unsign E token = Inr r \<and> rsplit_sep r = Some (v, ts) \<and>
    base64_decode ts = Some b \<and> bytes_to_int b = Some n \<and> n \<le> 253402300799 \<and>
    (m < int (unat now) - int n \<or> int (unat now) - int n < 0)"
  then show "serializer_loads E now token m = Inl SignatureExpired"
    by (auto simp: serializer_loads_def timestamp_unsign_def Let_def)
next
  assume "unat t \<le> 253402300799 \<and>
    ADMIN_SESSION_EXPIRE_MINUTES E * 60 < int (unat now) - int (unat t)"
  then show "serializer_loads E now (create_session_token E t aid uname)
      (ADMIN_SESSION_EXPIRE_MINUTES E * 60) = Inl SignatureExpired"
    by (simp add: create_session_token_def serializer_loads_dumps)
next
  assume "signer_unsign E token = Inl p"
  from timestamp_unsign_bad_signature[OF this, of now m]
  show "serializer_loads E now token m = Inl BadSignature \<or>
      serializer_loads E now token m = Inl BadTimeSignature"
    by (auto simp: serializer_loads_def)
next
  assume "serializer_loads E now token (ADMIN_SESSION_EXPIRE_MINUTES E * 60) = Inl e \<and>
    isinstance_BadSignature e"
  then show "verify_session_token E now token = Inr None"
    by (simp add: verify_session_token_def)
qed

lemma sample_token_parts:
  "signer_unsign sample_env sample_token =
     Inr ''eyJhZG1pbl9pZCI6MSwidXNlcm5hbWUiOiJhZG1pbiJ9.ZVPxAA'' \<and>
   rsplit_sep ''eyJhZG1pbl9pZCI6MSwidXNlcm5hbWUiOiJhZG1pbiJ9.ZVPxAA'' =
     Some (''eyJhZG1pbl9pZCI6MSwidXNlcm5hbWUiOiJhZG1pbiJ9'', ''ZVPxAA'') \<and>
   base64_decode ''ZVPxAA'' = Some (map char_of [101, 83, 241, 0 :: nat]) \<and>
   bytes_to_int (map char_of [101, 83, 241, 0 :: nat]) = Some 1700000000"
  by (simp add: sample_simps token_simps)

theorem failure_kinds_distinct_inside_only_witness:
  "signer_unsign sample_env forged_token =
     Inl (Some ''fyJhZG1pbl9pZCI6MSwidXNlcm5hbWUiOiJhZG1pbiJ9.ZVPxAA'') \<and>
   serializer_loads sample_env 1700003600 forged_token 28800 = Inl BadTimeSignature \<and>
   signer_unsign sample_env sample_token =
     Inr ''eyJhZG1pbl9pZCI6MSwidXNlcm5hbWUiOiJhZG1pbiJ9.ZVPxAA'' \<and>
   bytes_to_int (map char_of [101, 83, 241, 0 :: nat]) = Some 1700000000 \<and>
   serializer_loads sample_env 1700028801 sample_token 28800 = Inl SignatureExpired \<and>
   create_session_token sample_env 1700000000 1 ''admin'' = sample_token \<and>
   serializer_loads sample_env 1700028801 (create_session_token sample_env 1700000000 1 ''admin'')
     (ADMIN_SESSION_EXPIRE_MINUTES sample_env * 60) = Inl SignatureExpired \<and>
   isinstance_BadSignature SignatureExpired \<and>
   verify_session_token sample_env 1700028801 sample_token = Inr None \<and>
   (\<exists>r v ts b n. signer_unsign sample_env sample_token = Inr r \<and>
      rsplit_sep r = Some (v, ts) \<and> base64_decode ts = Some b \<and> bytes_to_int b = Some n \<and>
      (28800 < int (unat (1700028801 :: clock)) - int n \<or>
       int (unat (1700028801 :: clock)) - int n < 0))"
proof -
  have m: "ADMIN_SESSION_EXPIRE_MINUTES sample_env * 60 = 28800"
    by (simp add: sample_env_def)
  have h1: "signer_unsign sample_env forged_token =
     Inl (Some ''fyJhZG1pbl9pZCI6MSwidXNlcm5hbWUiOiJhZG1pbiJ9.ZVPxAA'')"
    by (rule forged_token_unsign)
  have l1: "serializer_loads sample_env 1700003600 forged_token 28800 = Inl BadTimeSignature"
    by (simp add: sample_simps token_simps)
  have age: "(1700000000 :: nat) \<le> 253402300799 \<and>
      ((28800 :: int) < int (unat (1700028801 :: clock)) - int (1700000000 :: nat) \<or>
       int (unat (1700028801 :: clock)) - int (1700000000 :: nat) < 0)"
    by simp
  from failure_kinds_distinct_inside_only[where E = sample_env and now = 1700028801
      and token = sample_token and m = 28800
      and r = "''eyJhZG1pbl9pZCI6MSwidXNlcm5hbWUiOiJhZG1pbiJ9.ZVPxAA''"
      and v = "''eyJhZG1pbl9pZCI6MSwidXNlcm5hbWUiOiJhZG1pbiJ9''" and ts = "''ZVPxAA''"
      and b = "map char_of [101, 83, 241, 0 :: nat]" and n = 1700000000]
    sample_token_parts age
  have c0: "serializer_loads sample_env 1700028801 sample_token 28800 = Inl SignatureExpired"
    by blast
  have h2: "serializer_loads sample_env 1700028801 sample_token
      (ADMIN_SESSION_EXPIRE_MINUTES sample_env * 60) = Inl SignatureExpired \<and>
    isinstance_BadSignature SignatureExpired"
    by (simp add: m c0)
  from failure_kinds_distinct_inside_only[where E = sample_env and now = 1700028801
      and token = sample_token and e = SignatureExpired] h2
  have c2: "verify_session_token sample_env 1700028801 sample_token = Inr None"
    by blast
  from failure_kinds_distinct_inside_only[where E = sample_env and now = 1700028801
      and token = sample_token and m = 28800] c0
  have c3: "\<exists>r v ts b n. signer_unsign sample_env sample_token = Inr r \<and>
      rsplit_sep r = Some (v, ts) \<and> base64_decode ts = Some b \<and> bytes_to_int b = Some n \<and>
      (28800 < int (unat (1700028801 :: clock)) - int n \<or>
       int (unat (1700028801 :: clock)) - int n < 0)"
    by blast
  from failure_kinds_distinct_inside_only[where E = sample_env and now = 1700003600
      and token = forged_token and m = 28800
      and p = "Some ''fyJhZG1pbl9pZCI6MSwidXNlcm5hbWUiOiJhZG1pbiJ9.ZVPxAA''"] h1 l1
  have c1: "serializer_loads sample_env 1700003600 forged_token 28800 = Inl BadTimeSignature"
    by blast
  have h4: "unat (1700000000 :: clock) \<le> 253402300799 \<and>
      ADMIN_SESSION_EXPIRE_MINUTES sample_env * 60 <
        int (unat (1700028801 :: clock)) - int (unat (1700000000 :: clock))"
    by (simp add: m)
  from failure_kinds_distinct_inside_only[where E = sample_env and now = 1700028801
      and t = 1700000000 and aid = 1 and uname = "''admin''"] h4
  have c4: "serializer_loads sample_env 1700028801
      (create_session_token sample_env 1700000000 1 ''admin'')
      (ADMIN_SESSION_EXPIRE_MINUTES sample_env * 60) = Inl SignatureExpired"
    by blast
  from h1 c1 sample_token_parts c0 sample_token_issued c4 h2 c2 c3 show ?thesis by blast
qed

section \<open>Changing a character of a token\<close>

lemma serializer_dumps_parts:
  "serializer_dumps E t obj =
     signed_text E t obj @ CHR ''.'' # base64_encode (hmac_digest E (signed_text E t obj))"
  by (simp add: serializer_dumps_def timestamp_sign_def signed_text_def Let_def)

lemma signed_text_has_sep: "CHR ''.'' \<in> set (signed_text E t obj)"
  by (simp add: signed_text_def)

lemma serializer_loads_cong:
  "signer_unsign E tok1 = signer_unsign E tok2 \<Longrightarrow>
   serializer_loads E now tok1 m = serializer_loads E now tok2 m"
  by (simp add: serializer_loads_def timestamp_unsign_def)

lemma serializer_loads_mismatch:
  assumes "rsplit_sep tok = Some (v, sg)" and "\<not> verify_signature E v sg"
  shows "serializer_loads E now tok m = Inl BadSignature \<or>
         serializer_loads E now tok m = Inl BadTimeSignature"
proof -
  from assms have "signer_unsign E tok = Inl (Some v)" by (simp add: signer_unsign_def)
  from timestamp_unsign_bad_signature[OF this, of now m]
  show ?thesis by (auto simp: serializer_loads_def)
qed

lemma serializer_loads_mismatch_timed:
  assumes "rsplit_sep tok = Some (v, sg)" and "\<not> verify_signature E v sg"
    and "CHR ''.'' \<in> set v"
  shows "serializer_loads E now tok m = Inl BadTimeSignature"
proof -
  from assms have su: "signer_unsign E tok = Inl (Some v)" by (simp add: signer_unsign_def)
  from assms(3) obtain a b where "rsplit_sep v = Some (a, b)"
    using rsplit_sep_None[of v] by (cases "rsplit_sep v") auto
  with su show ?thesis
    by (simp add: serializer_loads_def timestamp_unsign_def)
qed

text \<open>A change confined to the signature part: refused, or accepted like the token.\<close>

lemma altered_signature_part:
  assumes "CHR ''.'' \<notin> set sg"
  shows "serializer_loads E now (signed_text E t obj @ CHR ''.'' # sg) m = Inl BadTimeSignature \<or>
         serializer_loads E now (signed_text E t obj @ CHR ''.'' # sg) m =
           serializer_loads E now (serializer_dumps E t obj) m"
proof (cases "verify_signature E (signed_text E t obj) sg")
  case True
  have rs: "rsplit_sep (signed_text E t obj @ CHR ''.'' # sg) = Some (signed_text E t obj, sg)"
    by (rule rsplit_sep_append[OF assms])
  have "signer_unsign E (signed_text E t obj @ CHR ''.'' # sg) = Inr (signed_text E t obj)"
    by (simp add: signer_unsign_def rs True)
  moreover have "signer_unsign E (serializer_dumps E t obj) = Inr (signed_text E t obj)"
    unfolding serializer_dumps_parts by (rule signer_unsign_signed)
  ultimately show ?thesis using serializer_loads_cong by metis
next
  case False
  have rs: "rsplit_sep (signed_text E t obj @ CHR ''.'' # sg) = Some (signed_text E t obj, sg)"
    by (rule rsplit_sep_append[OF assms])
  from serializer_loads_mismatch_timed[OF rs False signed_text_has_sep]
  show ?thesis by simp
qed

text \<open>A change of the signed text under the old signature: refused unless the digests
  collide.\<close>

lemma altered_signed_text:
  assumes "hmac_digest E v \<noteq> hmac_digest E (signed_text E t obj)"
  shows "serializer_loads E now
           (v @ CHR ''.'' # base64_encode (hmac_digest E (signed_text E t obj))) m = Inl BadSignature \<or>
         serializer_loads E now
           (v @ CHR ''.'' # base64_encode (hmac_digest E (signed_text E t obj))) m = Inl BadTimeSignature"
proof -
  let ?sg = "base64_encode (hmac_digest E (signed_text E t obj))"
  have rs: "rsplit_sep (v @ CHR ''.'' # ?sg) = Some (v, ?sg)"
    by (rule rsplit_sep_append) (rule base64_encode_no_sep)
  have "\<not> verify_signature E v ?sg"
    using assms by (simp add: verify_signature_def base64_decode_encode)
  from serializer_loads_mismatch[OF rs this] show ?thesis .
qed

text \<open>
  Claim C2, as stated, fails. The token issued to \<open>admin\<close> at time 1700000000 ends in
  \<open>U\<close>; with that last character changed to \<open>V\<close> it is a different string, and
  \<open>verify_session_token\<close> accepts it: the base64 decoder drops the two low bits of the
  last signature character, so both strings carry the same signature bytes.
\<close>

theorem altered_last_character_accepted:
  "create_session_token sample_env 1700000000 1 ''admin'' = sample_token \<and>
   altered_token = butlast sample_token @ ''V'' \<and>
   last sample_token = CHR ''U'' \<and>
   verify_session_token sample_env 1700003600 altered_token = Inr (Some sample_payload) \<and>
   verify_session_token sample_env 1700003600 altered_token \<noteq> Inr None"
  by (simp add: sample_simps token_simps verify_session_token_def)

subsection \<open>How many bytes the decoder gives\<close>

lemma length_base64_encode: "length (base64_encode bs) = (4 * length bs + 2) div 3"
  by (induction bs rule: base64_encode.induct) simp_all

lemma a2b_loop_length_mono:
  "a2b_loop q l p out cs = Some r \<Longrightarrow> length out \<le> length r"
proof (induction q l p out cs rule: a2b_loop.induct)
  case (1 quad_pos leftchar pads out)
  then show ?case by (simp split: if_splits)
next
  case (2 quad_pos leftchar pads out c cs)
  show ?case
  proof (cases "c = CHR ''=''")
    case True
    with "2.prems" "2.IH"(1) show ?thesis
      by (cases "2 \<le> quad_pos \<and> 4 \<le> quad_pos + (pads + 1)") auto
  next
    case False
    show ?thesis
    proof (cases "b64val c")
      case None
      with False "2.prems" "2.IH"(2) show ?thesis by simp
    next
      case (Some v)
      consider "quad_pos = 0" | "quad_pos = 1" | "quad_pos = 2"
        | "quad_pos \<noteq> 0" "quad_pos \<noteq> 1" "quad_pos \<noteq> 2"
        by blast
      then show ?thesis
      proof cases
        case 1
        with False Some "2.prems" "2.IH"(3)[OF False Some] show ?thesis by simp
      next
        case 2
        with False Some "2.prems" "2.IH"(4)[OF False Some] show ?thesis by simp
      next
        case 3
        with False Some "2.prems" "2.IH"(5)[OF False Some] show ?thesis by simp
      next
        case 4
        with False Some "2.prems" "2.IH"(6)[OF False Some] show ?thesis by simp
      qed
    qed
  qed
qed

lemma a2b_loop_length_upper:
  "a2b_loop q l p out cs = Some r \<Longrightarrow> q < 4 \<Longrightarrow>
   4 * length r \<le> 4 * length out + (4 - q) mod 4 + 3 * length (filter (\<lambda>c. c \<noteq> CHR ''='') cs)"
proof (induction q l p out cs rule: a2b_loop.induct)
  case (1 quad_pos leftchar pads out)
  then show ?case by (simp split: if_splits)
next
  case (2 quad_pos leftchar pads out c cs)
  show ?case
  proof (cases "c = CHR ''=''")
    case True
    with "2.prems" "2.IH"(1) show ?thesis
      by (cases "2 \<le> quad_pos \<and> 4 \<le> quad_pos + (pads + 1)") auto
  next
    case False
    show ?thesis
    proof (cases "b64val c")
      case None
      with False "2.prems" "2.IH"(2) show ?thesis by simp
    next
      case (Some v)
      from "2.prems"(2) consider "quad_pos = 0" | "quad_pos = 1" | "quad_pos = 2"
        | "quad_pos = 3"
        by linarith
      then show ?thesis
      proof cases
        case 1
        with False Some "2.prems" "2.IH"(3)[OF False Some] show ?thesis by simp
      next
        case 2
        with False Some "2.prems" "2.IH"(4)[OF False Some] show ?thesis by simp
      next
        case 3
        with False Some "2.prems" "2.IH"(5)[OF False Some] show ?thesis by simp
      next
        case 4
        with False Some "2.prems" "2.IH"(6)[OF False Some] show ?thesis by simp
      qed
    qed
  qed
qed

lemma base64_decode_length_upper:
  assumes "base64_decode s = Some d"
  shows "4 * length d \<le> 3 * length s"
proof -
  from assms have "a2b_loop 0 0 0 [] (s @ replicate ((4 - length s mod 4) mod 4) (CHR ''='')) = Some d"
    by (simp add: base64_decode_def)
  from a2b_loop_length_upper[OF this]
  have "4 * length d \<le> 3 * length (filter (\<lambda>c. c \<noteq> CHR ''='') s)" by simp
  also have "\<dots> \<le> 3 * length s" by simp
  finally show ?thesis .
qed

lemma a2b_loop_valid_run:
  assumes "set xs \<subseteq> (!) b64chars ` {..<64}" and "q < 4"
  shows "\<exists>l' p' out'.
     a2b_loop q l p out (xs @ rest) = a2b_loop ((q + length xs) mod 4) l' p' out' rest \<and>
     length out' + (3 * q) div 4 = length out + (3 * (q + length xs)) div 4"
  using assms
proof (induction xs arbitrary: q l p out)
  case Nil
  then show ?case by auto
next
  case (Cons x xs)
  from Cons.prems(1) obtain i where i: "i < 64" "x = b64chars ! i" by auto
  from Cons.prems(1) have xs: "set xs \<subseteq> (!) b64chars ` {..<64}" by simp
  from Cons.prems(2) consider "q = 0" | "q = 1" | "q = 2" | "q = 3" by linarith
  then show ?case
  proof cases
    case 1
    have step: "a2b_loop q l p out ((x # xs) @ rest) = a2b_loop 1 i 0 out (xs @ rest)"
      unfolding 1 i(2) append_Cons by (rule a2b_loop_0[OF i(1)])
    from Cons.IH[OF xs, of 1 i 0 out] obtain l' p' out' where
      a: "a2b_loop 1 i 0 out (xs @ rest) = a2b_loop ((1 + length xs) mod 4) l' p' out' rest"
      and b: "length out' + (3 * 1) div 4 = length out + (3 * (1 + length xs)) div 4"
      by auto
    from a have "a2b_loop q l p out ((x # xs) @ rest) =
        a2b_loop ((q + length (x # xs)) mod 4) l' p' out' rest"
      unfolding step using 1 by simp
    moreover from b have "length out' + (3 * q) div 4 =
        length out + (3 * (q + length (x # xs))) div 4"
      using 1 by simp
    ultimately show ?thesis by blast
  next
    case 2
    let ?o = "out @ [char_of (l * 4 + i div 16)]"
    have step: "a2b_loop q l p out ((x # xs) @ rest) = a2b_loop 2 (i mod 16) 0 ?o (xs @ rest)"
      unfolding 2 i(2) append_Cons by (rule a2b_loop_1[OF i(1)])
    from Cons.IH[OF xs, of 2 "i mod 16" 0 ?o] obtain l' p' out' where
      a: "a2b_loop 2 (i mod 16) 0 ?o (xs @ rest) =
          a2b_loop ((2 + length xs) mod 4) l' p' out' rest"
      and b: "length out' + (3 * 2) div 4 = length ?o + (3 * (2 + length xs)) div 4"
      by auto
    from a have "a2b_loop q l p out ((x # xs) @ rest) =
        a2b_loop ((q + length (x # xs)) mod 4) l' p' out' rest"
      unfolding step using 2 by simp
    moreover from b have "length out' + (3 * q) div 4 =
        length out + (3 * (q + length (x # xs))) div 4"
      using 2 by simp
    ultimately show ?thesis by blast
  next
    case 3
    let ?o = "out @ [char_of (l * 16 + i div 4)]"
    have step: "a2b_loop q l p out ((x # xs) @ rest) = a2b_loop 3 (i mod 4) 0 ?o (xs @ rest)"
      unfolding 3 i(2) append_Cons by (rule a2b_loop_2[OF i(1)])
    from Cons.IH[OF xs, of 3 "i mod 4" 0 ?o] obtain l' p' out' where
      a: "a2b_loop 3 (i mod 4) 0 ?o (xs @ rest) =
          a2b_loop ((3 + length xs) mod 4) l' p' out' rest"
      and b: "length out' + (3 * 3) div 4 = length ?o + (3 * (3 + length xs)) div 4"
      by auto
    from a have "a2b_loop q l p out ((x # xs) @ rest) =
        a2b_loop ((q + length (x # xs)) mod 4) l' p' out' rest"
      unfolding step using 3 by simp
    moreover from b have "length out' + (3 * q) div 4 =
        length out + (3 * (q + length (x # xs))) div 4"
      using 3 by simp
    ultimately show ?thesis by blast
  next
    case 4
    let ?o = "out @ [char_of (l * 64 + i)]"
    have step: "a2b_loop q l p out ((x # xs) @ rest) = a2b_loop 0 0 0 ?o (xs @ rest)"
      unfolding 4 i(2) append_Cons by (rule a2b_loop_3[OF i(1)])
    from Cons.IH[OF xs, of 0 0 0 ?o] obtain l' p' out' where
      a: "a2b_loop 0 0 0 ?o (xs @ rest) = a2b_loop ((0 + length xs) mod 4) l' p' out' rest"
      and b: "length out' + (3 * 0) div 4 = length ?o + (3 * (0 + length xs)) div 4"
      by auto
    from a have "a2b_loop q l p out ((x # xs) @ rest) =
        a2b_loop ((q + length (x # xs)) mod 4) l' p' out' rest"
      unfolding step using 4 by (simp add: mod_Suc)
    moreover from b have "length out' + (3 * q) div 4 =
        length out + (3 * (q + length (x # xs))) div 4"
      using 4 by simp
    ultimately show ?thesis by blast
  qed
qed

lemma a2b_loop_one_char:
  assumes "a2b_loop q l p out (c # cs) = Some d" and "q < 4"
  shows "d = out \<or>
     (\<exists>q' l' p' out'. q' < 4 \<and> length out \<le> length out' \<and>
        a2b_loop q' l' p' out' cs = Some d)"
proof (cases "c = CHR ''=''")
  case True
  show ?thesis
  proof (cases "2 \<le> q \<and> 4 \<le> q + (p + 1)")
    case True
    with \<open>c = CHR ''=''\<close> assms(1) show ?thesis by simp
  next
    case False
    with \<open>c = CHR ''=''\<close> assms(1)
    have "a2b_loop q l (if 2 \<le> q then p + 1 else p) out cs = Some d"
      by (auto split: if_splits)
    with assms(2) show ?thesis by blast
  qed
next
  case False
  show ?thesis
  proof (cases "b64val c")
    case None
    with False assms(1) have "a2b_loop q l p out cs = Some d" by simp
    with assms(2) show ?thesis by blast
  next
    case (Some v)
    from assms(2) consider "q = 0" | "q = 1" | "q = 2" | "q = 3" by linarith
    then show ?thesis
    proof cases
      case 1
      with False Some assms(1) have "a2b_loop 1 v 0 out cs = Some d" by simp
      moreover have "(1::nat) < 4" by simp
      ultimately show ?thesis by blast
    next
      case 2
      with False Some assms(1)
      have "a2b_loop 2 (v mod 16) 0 (out @ [char_of (l * 4 + v div 16)]) cs = Some d"
        by simp
      moreover have "(2::nat) < 4"
        "length out \<le> length (out @ [char_of (l * 4 + v div 16)])" by simp_all
      ultimately show ?thesis by blast
    next
      case 3
      with False Some assms(1)
      have "a2b_loop 3 (v mod 4) 0 (out @ [char_of (l * 16 + v div 4)]) cs = Some d"
        by simp
      moreover have "(3::nat) < 4"
        "length out \<le> length (out @ [char_of (l * 16 + v div 4)])" by simp_all
      ultimately show ?thesis by blast
    next
      case 4
      with False Some assms(1)
      have "a2b_loop 0 0 0 (out @ [char_of (l * 64 + v)]) cs = Some d" by simp
      moreover have "(0::nat) < 4"
        "length out \<le> length (out @ [char_of (l * 64 + v)])" by simp_all
      ultimately show ?thesis by blast
    qed
  qed
qed

lemma sextets_27: "q < 4 \<Longrightarrow> (3 * q) div 4 + 20 \<le> (3 * (q + 27)) div (4::nat)"
proof -
  assume "q < 4"
  then consider "q = 0" | "q = 1" | "q = 2" | "q = 3" by linarith
  then show ?thesis by cases simp_all
qed

lemma base64_decode_joined:
  assumes T: "set ts \<subseteq> (!) b64chars ` {..<64}" and S: "set sg \<subseteq> (!) b64chars ` {..<64}"
    and lens: "length sg = 27" "2 \<le> length ts" "length ts \<le> 26"
    and dec: "base64_decode (ts @ c # sg) = Some d"
  shows "length d \<noteq> 20"
proof -
  let ?pad = "replicate ((4 - length (ts @ c # sg) mod 4) mod 4) (CHR ''='')"
  from dec have run: "a2b_loop 0 0 0 [] (ts @ c # sg @ ?pad) = Some d"
    by (simp add: base64_decode_def)
  from a2b_loop_valid_run[OF T, of 0 0 0 "[]" "c # sg @ ?pad"]
  obtain l1 p1 out1 where
    a: "a2b_loop 0 0 0 [] (ts @ c # sg @ ?pad) =
        a2b_loop (length ts mod 4) l1 p1 out1 (c # sg @ ?pad)"
    and b: "length out1 = (3 * length ts) div 4"
    by auto
  from lens(2,3) b have o1: "1 \<le> length out1" "length out1 \<le> 19" by linarith+
  from run a have "a2b_loop (length ts mod 4) l1 p1 out1 (c # sg @ ?pad) = Some d" by simp
  from a2b_loop_one_char[OF this]
  consider "d = out1"
    | q' l' p' out' where "q' < 4" "length out1 \<le> length out'"
        "a2b_loop q' l' p' out' (sg @ ?pad) = Some d"
    by auto
  then show ?thesis
  proof cases
    case 1
    with o1 show ?thesis by simp
  next
    case 2
    from a2b_loop_valid_run[OF S 2(1), of l' p' out' ?pad]
    obtain l3 p3 out3 where
      c: "a2b_loop q' l' p' out' (sg @ ?pad) = a2b_loop ((q' + length sg) mod 4) l3 p3 out3 ?pad"
      and e: "length out3 + (3 * q') div 4 = length out' + (3 * (q' + length sg)) div 4"
      by auto
    from 2(3) c have "a2b_loop ((q' + length sg) mod 4) l3 p3 out3 ?pad = Some d" by simp
    from a2b_loop_length_mono[OF this] have m: "length out3 \<le> length d" .
    from e lens(1) sextets_27[OF 2(1)] have "length out' + 20 \<le> length out3" by simp
    with m 2(2) o1 show ?thesis by simp
  qed
qed

lemma base64_decode_short:
  assumes "base64_decode s = Some d" and "length s \<le> 26"
  shows "length d \<noteq> 20"
  using base64_decode_length_upper[OF assms(1)] assms(2) by simp

lemma int_to_bytes_nonempty: "t \<noteq> 0 \<Longrightarrow> int_to_bytes t \<noteq> []"
proof
  assume "t \<noteq> 0" and e: "int_to_bytes t = []"
  from bytes_to_int_int_to_bytes[of t] e have "unat t = 0"
    by (simp add: bytes_to_int_def be_value_def)
  with \<open>t \<noteq> 0\<close> show False by (simp add: unat_eq_0)
qed

lemma length_encoded_timestamp:
  assumes "t \<noteq> 0"
  shows "2 \<le> length (base64_encode (int_to_bytes t))"
    and "length (base64_encode (int_to_bytes t)) \<le> 26"
proof -
  from int_to_bytes_nonempty[OF assms] have "1 \<le> length (int_to_bytes t)"
    by (cases "int_to_bytes t") simp_all
  with length_int_to_bytes[of t]
  show "2 \<le> length (base64_encode (int_to_bytes t))"
    and "length (base64_encode (int_to_bytes t)) \<le> 26"
    unfolding length_base64_encode by linarith+
qed

lemma length_encoded_digest:
  "length bs = 20 \<Longrightarrow> length (base64_encode bs) = 27"
  by (simp add: length_base64_encode)

text \<open>The separator before the signature replaced by another character.\<close>

lemma separator_replaced:
  assumes hlen: "\<forall>x. length (hmac_digest E x) = 20" and t0: "t \<noteq> 0" and c: "c \<noteq> CHR ''.''"
  shows "serializer_loads E now
           (signed_text E t obj @ c # base64_encode (hmac_digest E (signed_text E t obj))) m
           = Inl BadSignature \<or>
         serializer_loads E now
           (signed_text E t obj @ c # base64_encode (hmac_digest E (signed_text E t obj))) m
           = Inl BadTimeSignature"
proof -
  let ?P = "dump_payload E obj"
  let ?T = "base64_encode (int_to_bytes t)"
  let ?S = "base64_encode (hmac_digest E (signed_text E t obj))"
  have tok: "signed_text E t obj @ c # ?S = ?P @ CHR ''.'' # (?T @ c # ?S)"
    by (simp add: signed_text_def)
  have nodot: "CHR ''.'' \<notin> set (?T @ c # ?S)"
    using c base64_encode_no_sep by simp
  have rs: "rsplit_sep (signed_text E t obj @ c # ?S) = Some (?P, ?T @ c # ?S)"
    unfolding tok by (rule rsplit_sep_append[OF nodot])
  have "\<not> verify_signature E ?P (?T @ c # ?S)"
  proof
    assume "verify_signature E ?P (?T @ c # ?S)"
    then have dec: "base64_decode (?T @ c # ?S) = Some (hmac_digest E ?P)"
      by (auto simp: verify_signature_def split: option.splits)
    from hlen have "length ?S = 27" by (simp add: length_encoded_digest)
    from base64_decode_joined[OF base64_encode_sextets base64_encode_sextets this
        length_encoded_timestamp[OF t0] dec]
    show False using hlen by simp
  qed
  from serializer_loads_mismatch[OF rs this] show ?thesis .
qed

text \<open>A character of the signature replaced by the separator.\<close>

lemma separator_inserted:
  assumes hlen: "\<forall>x. length (hmac_digest E x) = 20"
    and j: "j < length (base64_encode (hmac_digest E (signed_text E t obj)))"
  shows "serializer_loads E now
           (signed_text E t obj @ CHR ''.'' #
              (base64_encode (hmac_digest E (signed_text E t obj)))[j := CHR ''.'']) m
           = Inl BadTimeSignature"
proof -
  let ?V = "signed_text E t obj"
  let ?S = "base64_encode (hmac_digest E ?V)"
  let ?v = "?V @ CHR ''.'' # take j ?S"
  have upd: "?S[j := CHR ''.''] = take j ?S @ CHR ''.'' # drop (Suc j) ?S"
    by (rule upd_conv_take_nth_drop[OF j])
  have tok: "?V @ CHR ''.'' # ?S[j := CHR ''.''] = ?v @ CHR ''.'' # drop (Suc j) ?S"
    by (simp add: upd)
  have nodot: "CHR ''.'' \<notin> set (drop (Suc j) ?S)"
    using base64_encode_no_sep[of "hmac_digest E ?V"] set_drop_subset[of "Suc j" ?S] by blast
  have rs: "rsplit_sep (?V @ CHR ''.'' # ?S[j := CHR ''.'']) = Some (?v, drop (Suc j) ?S)"
    unfolding tok by (rule rsplit_sep_append[OF nodot])
  have "\<not> verify_signature E ?v (drop (Suc j) ?S)"
  proof
    assume "verify_signature E ?v (drop (Suc j) ?S)"
    then have dec: "base64_decode (drop (Suc j) ?S) = Some (hmac_digest E ?v)"
      by (auto simp: verify_signature_def split: option.splits)
    from hlen have "length ?S = 27" by (simp add: length_encoded_digest)
    then have "length (drop (Suc j) ?S) \<le> 26" by simp
    from base64_decode_short[OF dec this] show False using hlen by simp
  qed
  moreover have "CHR ''.'' \<in> set ?v" by simp
  ultimately show ?thesis using serializer_loads_mismatch_timed[OF rs] by blast
qed

text \<open>
  Claim C2, amended. Take a token issued by \<open>create_session_token\<close> (through the
  serializer's \<open>dumps\<close>, at a clock value other than 0) and replace any one of its
  characters by a different one. The digest is HMAC-SHA1, 20 bytes long. Then:
  \<^item> a replacement in the signed text (payload or timestamp, before the last
    separator) is refused with \<open>BadSignature\<close> or \<open>BadTimeSignature\<close>, provided the
    digest of the altered text differs from the digest of the original text;
  \<^item> a replacement of the last separator is refused in the same way;
  \<^item> a replacement of a character of the signature is refused in the same way,
    unless the altered signature still decodes to the same digest bytes (the decoder
    drops the unused low bits of its last character and reads \<open>+\<close> like \<open>-\<close> and
    \<open>/\<close> like \<open>_\<close>): then the altered string is accepted and gives exactly what the
    issued token gives.
  So \<open>verify_session_token\<close> returns \<open>None\<close> for the altered string or the result of the
  issued token, never another payload. A character is one byte of the token here.
\<close>

theorem single_character_change:
  assumes hlen: "\<forall>x. length (hmac_digest E x) = 20"
    and t0: "t \<noteq> 0"
    and i: "i < length (serializer_dumps E t obj)"
    and c: "c \<noteq> serializer_dumps E t obj ! i"
    and hcol: "i < length (signed_text E t obj) \<longrightarrow>
         hmac_digest E ((signed_text E t obj)[i := c]) \<noteq> hmac_digest E (signed_text E t obj)"
  shows "(serializer_loads E now ((serializer_dumps E t obj)[i := c]) m = Inl BadSignature \<or>
          serializer_loads E now ((serializer_dumps E t obj)[i := c]) m = Inl BadTimeSignature \<or>
          length (signed_text E t obj) < i \<and>
          serializer_loads E now ((serializer_dumps E t obj)[i := c]) m =
            serializer_loads E now (serializer_dumps E t obj) m) \<and>
         (verify_session_token E now ((serializer_dumps E t obj)[i := c]) = Inr None \<or>
          length (signed_text E t obj) < i \<and>
          verify_session_token E now ((serializer_dumps E t obj)[i := c]) =
            verify_session_token E now (serializer_dumps E t obj))"
proof -
  let ?V = "signed_text E t obj"
  let ?S = "base64_encode (hmac_digest E ?V)"
  let ?tok = "serializer_dumps E t obj"
  have tok: "?tok = ?V @ CHR ''.'' # ?S" by (rule serializer_dumps_parts)
  have loads: "serializer_loads E now (?tok[i := c]) m' = Inl BadSignature \<or>
          serializer_loads E now (?tok[i := c]) m' = Inl BadTimeSignature \<or>
          length ?V < i \<and>
          serializer_loads E now (?tok[i := c]) m' = serializer_loads E now ?tok m'" for m'
  proof -
    consider "i < length ?V" | "i = length ?V" | "length ?V < i" by linarith
    then show ?thesis
    proof cases
      case 1
      then have upd: "?tok[i := c] = ?V[i := c] @ CHR ''.'' # ?S"
        unfolding tok by (simp add: list_update_append)
      from 1 hcol have "hmac_digest E (?V[i := c]) \<noteq> hmac_digest E ?V" by simp
      from altered_signed_text[OF this, of now m'] show ?thesis
        unfolding upd by blast
    next
      case 2
      then have upd: "?tok[i := c] = ?V @ c # ?S" unfolding tok by simp
      from 2 c have "c \<noteq> CHR ''.''" unfolding tok by simp
      from separator_replaced[OF hlen t0 this, of now obj m'] show ?thesis
        unfolding upd by blast
    next
      case 3
      define j where "j = i - length ?V - 1"
      from 3 i have j: "j < length ?S" unfolding tok j_def by simp
      from 3 have upd: "?tok[i := c] = ?V @ CHR ''.'' # ?S[j := c]"
        proof -
        from 3 obtain k where k: "i - length ?V = Suc k" by (cases "i - length ?V") auto
        then have "k = i - length ?V - 1" by simp
        with 3 k show ?thesis unfolding tok j_def by (simp add: list_update_append)
      qed
      show ?thesis
      proof (cases "c = CHR ''.''")
        case True
        have "serializer_loads E now (?tok[i := c]) m' = Inl BadTimeSignature"
          unfolding upd using separator_inserted[OF hlen j, of now m'] True by simp
        then show ?thesis by blast
      next
        case False
        have "set (?S[j := c]) \<subseteq> insert c (set ?S)" by (rule set_update_subset_insert)
        with False base64_encode_no_sep[of "hmac_digest E ?V"]
        have "CHR ''.'' \<notin> set (?S[j := c])" by auto
        from altered_signature_part[OF this, of E now t obj m'] 3 show ?thesis
          unfolding upd by blast
      qed
    qed
  qed
  from loads[of "ADMIN_SESSION_EXPIRE_MINUTES E * 60"]
  have "verify_session_token E now (?tok[i := c]) = Inr None \<or>
          length ?V < i \<and>
          verify_session_token E now (?tok[i := c]) = verify_session_token E now ?tok"
    by (auto simp: verify_session_token_def)
  with loads[of m] show ?thesis by blast
qed

lemma sample_digest_length: "\<forall>x. length (sample_digest x) = 20"
  by (simp add: sample_digest_def)

lemma sample_token_forged: "sample_token[0 := CHR ''f''] = forged_token"
  by (simp add: sample_token_def forged_token_def)

lemma sample_token_altered: "sample_token[78 := CHR ''V''] = altered_token"
  by (simp add: sample_token_def altered_token_def)

lemma sample_signed_text:
  "signed_text sample_env 1700000000 sample_payload =
     ''eyJhZG1pbl9pZCI6MSwidXNlcm5hbWUiOiJhZG1pbiJ9.ZVPxAA''"
  by (simp add: signed_text_def sample_simps token_simps)

lemma sample_token_dumps:
  "serializer_dumps sample_env 1700000000 sample_payload = sample_token"
  using sample_token_issued by (simp add: create_session_token_def sample_payload_def)

theorem single_character_change_witness:
  "(\<forall>x. length (hmac_digest sample_env x) = 20) \<and>
   (1700000000 :: clock) \<noteq> 0 \<and>
   serializer_dumps sample_env 1700000000 sample_payload = sample_token \<and>
   length (signed_text sample_env 1700000000 sample_payload) = 51 \<and>
   length sample_token = 79 \<and>
   sample_token[0 := CHR ''f''] = forged_token \<and>
   CHR ''f'' \<noteq> sample_token ! 0 \<and>
   hmac_digest sample_env ((signed_text sample_env 1700000000 sample_payload)[0 := CHR ''f''])
     \<noteq> hmac_digest sample_env (signed_text sample_env 1700000000 sample_payload) \<and>
   verify_session_token sample_env 1700003600 forged_token = Inr None \<and>
   sample_token[78 := CHR ''V''] = altered_token \<and>
   CHR ''V'' \<noteq> sample_token ! 78 \<and>
   verify_session_token sample_env 1700003600 altered_token =
     verify_session_token sample_env 1700003600 sample_token \<and>
   verify_session_token sample_env 1700003600 sample_token = Inr (Some sample_payload)"
proof -
  let ?V = "signed_text sample_env 1700000000 sample_payload"
  have hlen: "\<forall>x. length (hmac_digest sample_env x) = 20"
    by (simp add: sample_env_def sample_digest_length)
  have t0: "(1700000000 :: clock) \<noteq> 0" by simp
  have lv: "length ?V = 51" by (simp add: sample_signed_text)
  have lt: "length sample_token = 79" by (simp add: sample_token_def)
  have i1: "0 < length (serializer_dumps sample_env 1700000000 sample_payload)"
    by (simp add: sample_token_dumps lt)
  have c1: "CHR ''f'' \<noteq> serializer_dumps sample_env 1700000000 sample_payload ! 0"
    by (simp add: sample_token_dumps sample_token_def)
  have d1: "hmac_digest sample_env (?V[0 := CHR ''f'']) \<noteq> hmac_digest sample_env ?V"
    unfolding sample_signed_text by (simp add: sample_env_def sample_digest_def)
  then have col1: "0 < length ?V \<longrightarrow>
      hmac_digest sample_env (?V[0 := CHR ''f'']) \<noteq> hmac_digest sample_env ?V"
    by simp
  have i2: "78 < length (serializer_dumps sample_env 1700000000 sample_payload)"
    by (simp add: sample_token_dumps lt)
  have c2: "CHR ''V'' \<noteq> serializer_dumps sample_env 1700000000 sample_payload ! 78"
    by (simp add: sample_token_dumps sample_token_def)
  have col2: "78 < length ?V \<longrightarrow>
      hmac_digest sample_env (?V[78 := CHR ''V'']) \<noteq> hmac_digest sample_env ?V"
    by (simp add: lv)
  have va: "verify_session_token sample_env 1700003600 altered_token =
      Inr (Some sample_payload)"
    by (simp add: sample_simps token_simps verify_session_token_def)
  have vs: "verify_session_token sample_env 1700003600 sample_token =
      Inr (Some sample_payload)"
    by (simp add: sample_simps token_simps verify_session_token_def)
  from single_character_change[OF hlen t0 i1 c1 col1, of 1700003600 28800]
  have r1: "verify_session_token sample_env 1700003600 forged_token = Inr None"
    by (simp add: sample_token_dumps sample_token_forged)
  from single_character_change[OF hlen t0 i2 c2 col2, of 1700003600 28800] va
  have r2: "verify_session_token sample_env 1700003600 altered_token =
      verify_session_token sample_env 1700003600 sample_token"
    by (simp add: sample_token_dumps sample_token_altered)
  from c1 c2 have c1': "CHR ''f'' \<noteq> sample_token ! 0" and c2': "CHR ''V'' \<noteq> sample_token ! 78"
    by (simp_all add: sample_token_dumps)
  from hlen t0 sample_token_dumps lv lt sample_token_forged c1' d1 r1 sample_token_altered
    c2' r2 vs
  show ?thesis by blast
qed

end
